theory Spec2Isabelle
  imports Main "HOL-Library.Sublist"
begin

section \<open>Data model\<close>

text \<open>
  The embedding follows \<^verbatim>\<open>ContentDataProvider.ts\<close>: each method of the provider is a
  function from the state of the world before the call to the value returned and the state
  after it. A \<^verbatim>\<open>Uri\<close> is kept as the two components the provider reads or extends: the
  path, as its list of segments, and the query (the file id).
\<close>

record Uri =
  path :: "string list"
  query :: string

record Link =
  linkMethod :: string
  rel :: string
  linkUri :: string

text \<open>
  A \<^verbatim>\<open>ContentItem\<close> with the fields the provider reads: \<^verbatim>\<open>name\<close>, \<^verbatim>\<open>uri\<close>,
  \<^verbatim>\<open>parentFolderUri\<close>, \<^verbatim>\<open>type\<close>, \<^verbatim>\<open>links\<close> and \<^verbatim>\<open>flags.isInRecycleBin\<close>.
\<close>

record ContentItem =
  name :: string
  uri :: string
  parentFolderUri :: string
  itemType :: string
  links :: "Link list"
  isInRecycleBin :: bool

datatype TabInput = TabInputText Uri | TabInputNotebook Uri | TabInputOther

record Tab =
  label :: string
  input :: TabInput

datatype Message =
  FileDropError | FileDragFromTrashError | FileDragFromFavorites | FileUploadError

text \<open>
  Everything the provider does to its collaborators is recorded, in order, in a log: the calls
  of the content model that change the store or fetch children, each with the model's answer,
  the two events of the provider (\<^verbatim>\<open>_onDidChangeTreeData\<close> as \<^verbatim>\<open>Refresh\<close>,
  \<^verbatim>\<open>_onDidChange\<close> as \<^verbatim>\<open>DidChange\<close>), the messages shown, the requests to the
  editor and the writes to the local file system.
\<close>

datatype event =
    ModelCreateFolder ContentItem string "ContentItem option"
  | ModelCreateFile ContentItem string "string option" "ContentItem option"
  | ModelRenameResource ContentItem string "ContentItem option"
  | ModelDelete ContentItem bool
  | ModelMoveTo ContentItem string bool
  | ModelAddFavorite ContentItem bool
  | ModelRemoveFavorite ContentItem bool
  | ModelGetChildren "ContentItem option"
  | Refresh
  | DidChange Uri
  | ShowErrorMessage Message "string option"
  | Reveal ContentItem
  | TabClose Tab bool
  | VscodeOpen Uri
  | FsCreateDirectory Uri
  | FsWriteFile Uri string

record world =
  tabGroups :: "Tab list list"
  log :: "event list"

text \<open>
  The places where the provider starts several tasks at once and waits for all of them with
  \<^verbatim>\<open>Promise.all\<close>: the children of the recycle bin being deleted, the items of a drop,
  the URIs of a drop, and the entries of a local directory being imported into the remote
  folder created for it.
\<close>

datatype site = EmptyTrash | DroppedItems | DroppedUris | FolderEntries ContentItem

text \<open>
  The collaborators: the helpers of \<^verbatim>\<open>utils\<close> and the constants of \<^verbatim>\<open>const\<close>, which
  the provider imports, the \<^verbatim>\<open>ContentModel\<close>, and the user's answer when the editor asks
  to close a tab. Each is a parameter; the answers of the model and of the user may depend on
  everything that happened before the request. A request answers with a value:
  \<^verbatim>\<open>undefined\<close> or \<^verbatim>\<open>false\<close> when it fails. A promise that is rejected is not part
  of the model. \<^verbatim>\<open>Uri.joinPath\<close> of the editor is a parameter as well. The last parameter
  is the order in which the event loop resumes the tasks that wait together at a site: a
  list of choices among the tasks still pending, read when the tasks have been started.
\<close>

record env =
  getUri :: "ContentItem \<Rightarrow> bool \<Rightarrow> Uri"
  isItemInRecycleBin :: "ContentItem \<Rightarrow> bool"
  isReference :: "ContentItem \<Rightarrow> bool"
  isContainer :: "ContentItem \<Rightarrow> bool"
  getLink :: "Link list \<Rightarrow> string \<Rightarrow> string \<Rightarrow> Link option"
  getResourceIdFromItem :: "ContentItem \<Rightarrow> string option"
  TRASH_FOLDER_TYPE :: string
  FAVORITES_FOLDER_TYPE :: string
  model_getDelegateFolder :: "world \<Rightarrow> string \<Rightarrow> ContentItem option"
  model_getChildren :: "world \<Rightarrow> ContentItem option \<Rightarrow> ContentItem list"
  model_getContentByUri :: "world \<Rightarrow> Uri \<Rightarrow> string"
  model_createFolder :: "world \<Rightarrow> ContentItem \<Rightarrow> string \<Rightarrow> ContentItem option"
  model_createFile :: "world \<Rightarrow> ContentItem \<Rightarrow> string \<Rightarrow> string option \<Rightarrow> ContentItem option"
  model_renameResource :: "world \<Rightarrow> ContentItem \<Rightarrow> string \<Rightarrow> ContentItem option"
  model_delete :: "world \<Rightarrow> ContentItem \<Rightarrow> bool"
  model_moveTo :: "world \<Rightarrow> ContentItem \<Rightarrow> string \<Rightarrow> bool"
  model_addFavorite :: "world \<Rightarrow> ContentItem \<Rightarrow> bool"
  model_removeFavorite :: "world \<Rightarrow> ContentItem \<Rightarrow> bool"
  tabGroups_close :: "world \<Rightarrow> Tab \<Rightarrow> bool"
  joinPath :: "Uri \<Rightarrow> string \<Rightarrow> Uri"
  schedule :: "world \<Rightarrow> site \<Rightarrow> nat list"

section \<open>The provider\<close>

definition emit :: "event \<Rightarrow> world \<Rightarrow> world" where
  "emit e w = w\<lparr>log := log w @ [e]\<rparr>"

definition refresh :: "world \<Rightarrow> world" where
  "refresh w = emit Refresh w"

text \<open>
  \<^verbatim>\<open>closeFileIfOpen\<close> returns either the literal \<^verbatim>\<open>true\<close> or the promise of
  \<^verbatim>\<open>window.tabGroups.close(tab)\<close>. Closing removes the tab when the editor closes it and
  leaves the tabs as they are when the user declines.
\<close>

datatype closing = LiteralTrue | ClosePromise bool

fun awaitClosing :: "closing \<Rightarrow> bool" where
  "awaitClosing LiteralTrue = True"
| "awaitClosing (ClosePromise b) = b"

fun removeTab :: "Tab \<Rightarrow> Tab list list \<Rightarrow> Tab list list" where
  "removeTab t [] = []"
| "removeTab t (g # gs) = (if t \<in> set g then remove1 t g # gs else g # removeTab t gs)"

fun tabMatches :: "Uri \<Rightarrow> Tab \<Rightarrow> bool" where
  "tabMatches fileUri t =
     (case input t of
        TabInputText u \<Rightarrow> query u = query fileUri
      | TabInputNotebook u \<Rightarrow> query u = query fileUri
      | TabInputOther \<Rightarrow> False)"

definition closeFileIfOpen :: "env \<Rightarrow> ContentItem \<Rightarrow> world \<Rightarrow> closing \<times> world" where
  "closeFileIfOpen en item w =
     (let fileUri = getUri en item (isItemInRecycleBin en item);
          tabs = concat (tabGroups w)
      in case find (tabMatches fileUri) tabs of
           Some t \<Rightarrow>
             (let closed = tabGroups_close en w t;
                  w1 = (if closed then w\<lparr>tabGroups := removeTab t (tabGroups w)\<rparr> else w)
              in (ClosePromise closed, emit (TabClose t closed) w1))
         | None \<Rightarrow> (LiteralTrue, w))"

definition deleteResource :: "env \<Rightarrow> ContentItem \<Rightarrow> world \<Rightarrow> bool \<times> world" where
  "deleteResource en item w =
     (let (closing, w1) = closeFileIfOpen en item w
      in if \<not> awaitClosing closing then (False, w1)
         else
           (let success = model_delete en w1 item;
                w2 = emit (ModelDelete item success) w1
            in (success, if success then refresh w2 else w2)))"

text \<open>
  A value used as a condition: \<^verbatim>\<open>undefined\<close>, \<^verbatim>\<open>null\<close> and the empty string are
  falsy.
\<close>

fun truthy :: "string option \<Rightarrow> bool" where
  "truthy None = False"
| "truthy (Some s) = (s \<noteq> [])"

definition createFolder :: "env \<Rightarrow> ContentItem \<Rightarrow> string \<Rightarrow> world \<Rightarrow> Uri option \<times> world" where
  "createFolder en item folderName w =
     (let newItem = model_createFolder en w item folderName;
          w1 = emit (ModelCreateFolder item folderName newItem) w
      in case newItem of
           Some ni \<Rightarrow> (Some (getUri en ni False), refresh w1)
         | None \<Rightarrow> (None, w1))"

definition createFile ::
  "env \<Rightarrow> ContentItem \<Rightarrow> string \<Rightarrow> string option \<Rightarrow> world \<Rightarrow> Uri option \<times> world" where
  "createFile en item fileName buffer w =
     (let newItem = model_createFile en w item fileName buffer;
          w1 = emit (ModelCreateFile item fileName buffer newItem) w
      in case newItem of
           Some ni \<Rightarrow> (Some (getUri en ni False), refresh w1)
         | None \<Rightarrow> (None, w1))"

definition renameResource :: "env \<Rightarrow> ContentItem \<Rightarrow> string \<Rightarrow> world \<Rightarrow> Uri option \<times> world" where
  "renameResource en item newName w =
     (let (closing, w1) = closeFileIfOpen en item w
      in if \<not> awaitClosing closing then (None, w1)
         else
           (let newItem = model_renameResource en w1 item newName;
                w2 = emit (ModelRenameResource item newName newItem) w1
            in case newItem of
                 Some ni \<Rightarrow>
                   (let newUri = getUri en ni False
                    in (Some newUri, if closing \<noteq> LiteralTrue then emit (VscodeOpen newUri) w2 else w2))
               | None \<Rightarrow> (None, w2)))"

definition recycleResource :: "env \<Rightarrow> ContentItem \<Rightarrow> world \<Rightarrow> bool \<times> world" where
  "recycleResource en item w =
     (case model_getDelegateFolder en w ''@myRecycleBin'' of
        None \<Rightarrow> deleteResource en item w
      | Some recycleBin \<Rightarrow>
          (let recycleBinUri = map_option linkUri (getLink en (links recycleBin) ''GET'' ''self'')
           in if \<not> truthy recycleBinUri then (False, w)
              else
                (let (closing, w1) = closeFileIfOpen en item w
                 in if \<not> awaitClosing closing then (False, w1)
                    else
                      (let success = model_moveTo en w1 item (the recycleBinUri);
                           w2 = emit (ModelMoveTo item (the recycleBinUri) success) w1
                       in (success,
                           if success then emit (DidChange (getUri en item True)) (refresh w2)
                           else w2)))))"

definition restoreResource :: "env \<Rightarrow> ContentItem \<Rightarrow> world \<Rightarrow> bool \<times> world" where
  "restoreResource en item w =
     (let previousParentUri = map_option linkUri (getLink en (links item) ''GET'' ''previousParent'')
      in if \<not> truthy previousParentUri then (False, w)
         else
           (let (closing, w1) = closeFileIfOpen en item w
            in if \<not> awaitClosing closing then (False, w1)
               else
                 (let success = model_moveTo en w1 item (the previousParentUri);
                      w2 = emit (ModelMoveTo item (the previousParentUri) success) w1
                  in (success, if success then refresh w2 else w2))))"

definition addToMyFavorites :: "env \<Rightarrow> ContentItem \<Rightarrow> world \<Rightarrow> bool \<times> world" where
  "addToMyFavorites en item w =
     (let success = model_addFavorite en w item;
          w1 = emit (ModelAddFavorite item success) w
      in (success, if success then refresh w1 else w1))"

definition removeFromMyFavorites :: "env \<Rightarrow> ContentItem \<Rightarrow> world \<Rightarrow> bool \<times> world" where
  "removeFromMyFavorites en item w =
     (let success = model_removeFavorite en w item;
          w1 = emit (ModelRemoveFavorite item success) w
      in (success, if success then refresh w1 else w1))"

definition handleCreationResponse ::
  "ContentItem \<Rightarrow> Uri option \<Rightarrow> Message \<Rightarrow> world \<Rightarrow> world" where
  "handleCreationResponse resource newUri errorMessage w =
     (case newUri of
        None \<Rightarrow> emit (ShowErrorMessage errorMessage None) w
      | Some u \<Rightarrow> emit (Reveal resource) w)"

subsection \<open>Export of a selection\<close>

definition childrenSelections ::
  "env \<Rightarrow> ContentItem \<Rightarrow> ContentItem list \<Rightarrow> world \<Rightarrow> ContentItem list \<times> world" where
  "childrenSelections en selection allSelections w =
     (let foundSelections =
            filter (\<lambda>foundSelection. parentFolderUri foundSelection = uri selection) allSelections
      in if length foundSelections > 0 then (foundSelections, w)
         else (model_getChildren en w (Some selection), emit (ModelGetChildren (Some selection)) w))"

text \<open>
  \<^verbatim>\<open>downloadContentItems\<close> calls itself on whatever \<^verbatim>\<open>childrenSelections\<close> answers,
  so nothing in the code bounds its depth: the first argument is the depth of nesting allowed,
  and \<^const>\<open>None\<close> says that it was not enough.
\<close>

function downloadContentItems ::
  "nat \<Rightarrow> env \<Rightarrow> Uri \<Rightarrow> ContentItem list \<Rightarrow> ContentItem list \<Rightarrow> world \<Rightarrow> world option" where
  "downloadContentItems fuel en folderUri [] allSelections w = Some w"
| "downloadContentItems fuel en folderUri (selection # rest) allSelections w =
     (if isContainer en selection then
        (case fuel of
           0 \<Rightarrow> None
         | Suc k \<Rightarrow>
             (let newFolderUri = joinPath en folderUri (name selection)
              in case childrenSelections en selection allSelections w of
                   (selectionsWithinFolder, w1) \<Rightarrow>
                     (case downloadContentItems k en newFolderUri selectionsWithinFolder
                             allSelections (emit (FsCreateDirectory newFolderUri) w1) of
                        None \<Rightarrow> None
                      | Some w2 \<Rightarrow> downloadContentItems fuel en folderUri rest allSelections w2)))
      else
        downloadContentItems fuel en folderUri rest allSelections
          (emit (FsWriteFile (joinPath en folderUri (name selection))
                   (model_getContentByUri en w (getUri en selection False))) w))"
  by pat_completeness auto
termination
  by (relation "measures [\<lambda>(fuel, en, folderUri, sels, alls, w). fuel,
                          \<lambda>(fuel, en, folderUri, sels, alls, w). length sels]") auto

subsection \<open>Drop of an item of the tree\<close>

definition handleContentItemDrop :: "env \<Rightarrow> ContentItem \<Rightarrow> ContentItem \<Rightarrow> world \<Rightarrow> world" where
  "handleContentItemDrop en target item w =
     (let (message, success, w1) =
            (if isInRecycleBin item then (FileDragFromTrashError, False, w)
             else if isReference en item then (FileDragFromFavorites, False, w)
             else if itemType target = TRASH_FOLDER_TYPE en then
               (case recycleResource en item w of (s, w') \<Rightarrow> (FileDropError, s, w'))
             else if itemType target = FAVORITES_FOLDER_TYPE en then
               (case addToMyFavorites en item w of (s, w') \<Rightarrow> (FileDropError, s, w'))
             else
               (let targetUri = getResourceIdFromItem en target;
                    (s, w') =
                      (if truthy targetUri then
                         (let r = model_moveTo en w item (the targetUri)
                          in (r, emit (ModelMoveTo item (the targetUri) r) w))
                       else (False, w))
                in (FileDropError, s, if s then refresh w' else w')))
      in if \<not> success then emit (ShowErrorMessage message (Some (name item))) w1 else w1)"

section \<open>Tasks\<close>

text \<open>
  A call of an \<^verbatim>\<open>async\<close> method runs at once up to its first \<^verbatim>\<open>await\<close> and returns a
  promise. The promise is modelled as what is left to do: nothing, with the value it resolved
  to, or a suspended task that, when the event loop resumes it, runs without interruption up
  to its next \<^verbatim>\<open>await\<close> on the world as it then is. So an \<^verbatim>\<open>async\<close> method is a
  function from the world at the call to the task left and the world after the part that ran.
\<close>

datatype 'a task = Done 'a | Step "world \<Rightarrow> 'a task \<times> world"

text \<open>A task awaited with nothing else in flight: it is resumed until it is done.\<close>

primrec runTask :: "'a task \<Rightarrow> world \<Rightarrow> 'a \<times> world" where
  "runTask (Done a) = (\<lambda>w. (a, w))"
| "runTask (Step k) = (\<lambda>w. case map_prod runTask id (k w) of (r, w') \<Rightarrow> r w')"

text \<open>
  \<^verbatim>\<open>const a = await t; ...\<close>: the rest of the method is resumed, later, with the value
  of the task \<^verbatim>\<open>t\<close> once that is done, and runs up to its own next \<^verbatim>\<open>await\<close>.
\<close>

primrec awaitThen :: "'a task \<Rightarrow> ('a \<Rightarrow> world \<Rightarrow> 'b task \<times> world) \<Rightarrow> 'b task" where
  "awaitThen (Done a) = (\<lambda>f. Step (f a))"
| "awaitThen (Step k) =
     (\<lambda>f. Step (\<lambda>w. case map_prod awaitThen id (k w) of (r, w') \<Rightarrow> (r f, w')))"

text \<open>\<^verbatim>\<open>xs.map(f)\<close> for an \<^verbatim>\<open>async f\<close>: every task is started, in the order of the list.\<close>

fun startAll ::
  "('x \<Rightarrow> world \<Rightarrow> 'a task \<times> world) \<Rightarrow> 'x list \<Rightarrow> world \<Rightarrow> 'a task list \<times> world" where
  "startAll f [] w = ([], w)"
| "startAll f (x # xs) w =
     (case f x w of
        (t, w1) \<Rightarrow> (case startAll f xs w1 of (ts, w2) \<Rightarrow> (t # ts, w2)))"

text \<open>
  \<^verbatim>\<open>Promise.all\<close> of tasks that have been started. The tasks are numbered by their place
  in the array. Those already done are done in that order; the others are resumed one part at
  a time, the next one chosen by the next number of the schedule among those still pending;
  when the schedule has no more choices the pending tasks are resumed one after the other,
  each to its end. The value is the list of the results in the order in which the tasks came
  to their end, each with the number of its task.
\<close>

fun settle :: "(nat \<times> 'a task) list \<Rightarrow> (nat \<times> 'a) list \<times> (nat \<times> 'a task) list" where
  "settle [] = ([], [])"
| "settle ((i, Done a) # ts) = (case settle ts of (finished, pending) \<Rightarrow> ((i, a) # finished, pending))"
| "settle ((i, Step k) # ts) =
     (case settle ts of (finished, pending) \<Rightarrow> (finished, (i, Step k) # pending))"

fun drain :: "(nat \<times> 'a) list \<Rightarrow> (nat \<times> 'a task) list \<Rightarrow> (nat \<times> 'a) list task" where
  "drain finished [] = Done finished"
| "drain finished ((i, t) # pending) =
     awaitThen t (\<lambda>a w. (drain (finished @ [(i, a)]) pending, w))"

fun promiseAllFrom ::
  "nat list \<Rightarrow> (nat \<times> 'a) list \<Rightarrow> (nat \<times> 'a task) list \<Rightarrow> (nat \<times> 'a) list task" where
  "promiseAllFrom [] finished pending = drain finished pending"
| "promiseAllFrom (c # choices) finished pending =
     (case pending of
        [] \<Rightarrow> Done finished
      | p # ps \<Rightarrow>
          Step (\<lambda>w.
            (let j = c mod length pending;
                 before = take j pending;
                 after = drop (Suc j) pending
             in case pending ! j of
                  (i, Done a) \<Rightarrow> (promiseAllFrom choices (finished @ [(i, a)]) (before @ after), w)
                | (i, Step k) \<Rightarrow>
                    (case k w of
                       (Done a, w1) \<Rightarrow>
                         (promiseAllFrom choices (finished @ [(i, a)]) (before @ after), w1)
                     | (Step k1, w1) \<Rightarrow>
                         (promiseAllFrom choices finished (before @ (i, Step k1) # after), w1)))))"

definition promiseAll :: "nat list \<Rightarrow> 'a task list \<Rightarrow> (nat \<times> 'a) list task" where
  "promiseAll choices tasks =
     (case settle (zip [0..<length tasks] tasks) of
        (finished, pending) \<Rightarrow> promiseAllFrom choices finished pending)"

section \<open>The methods as tasks\<close>

text \<open>
  The methods that the provider starts several at once, part by part: the parts are divided
  where the source has an \<^verbatim>\<open>await\<close>. A request to the model or to the editor is in the
  log from the part that makes it, with the answer that the part resumed after it will find.
\<close>

definition createFileTask ::
  "env \<Rightarrow> ContentItem \<Rightarrow> string \<Rightarrow> string option \<Rightarrow> world \<Rightarrow> Uri option task \<times> world" where
  "createFileTask en item fileName buffer w =
     (let newItem = model_createFile en w item fileName buffer;
          w1 = emit (ModelCreateFile item fileName buffer newItem) w
      in (Step (\<lambda>w2. case newItem of
                        Some ni \<Rightarrow> (Done (Some (getUri en ni False)), refresh w2)
                      | None \<Rightarrow> (Done None, w2)),
          w1))"

definition deleteResourceTask :: "env \<Rightarrow> ContentItem \<Rightarrow> world \<Rightarrow> bool task \<times> world" where
  "deleteResourceTask en item w =
     (let (closing, w1) = closeFileIfOpen en item w
      in (Step (\<lambda>w2.
            if \<not> awaitClosing closing then (Done False, w2)
            else
              (let success = model_delete en w2 item;
                   w3 = emit (ModelDelete item success) w2
               in (Step (\<lambda>w4. (Done success, if success then refresh w4 else w4)), w3))),
          w1))"

definition recycleResourceTask :: "env \<Rightarrow> ContentItem \<Rightarrow> world \<Rightarrow> bool task \<times> world" where
  "recycleResourceTask en item w =
     (case model_getDelegateFolder en w ''@myRecycleBin'' of
        None \<Rightarrow> deleteResourceTask en item w
      | Some recycleBin \<Rightarrow>
          (let recycleBinUri = map_option linkUri (getLink en (links recycleBin) ''GET'' ''self'')
           in if \<not> truthy recycleBinUri then (Done False, w)
              else
                (let (closing, w1) = closeFileIfOpen en item w
                 in (Step (\<lambda>w2.
                       if \<not> awaitClosing closing then (Done False, w2)
                       else
                         (let success = model_moveTo en w2 item (the recycleBinUri);
                              w3 = emit (ModelMoveTo item (the recycleBinUri) success) w2
                          in (Step (\<lambda>w4.
                                (Done success,
                                 if success then emit (DidChange (getUri en item True)) (refresh w4)
                                 else w4)),
                              w3))),
                     w1))))"

definition addToMyFavoritesTask :: "env \<Rightarrow> ContentItem \<Rightarrow> world \<Rightarrow> bool task \<times> world" where
  "addToMyFavoritesTask en item w =
     (let success = model_addFavorite en w item;
          w1 = emit (ModelAddFavorite item success) w
      in (Step (\<lambda>w2. (Done success, if success then refresh w2 else w2)), w1))"

definition handleContentItemDropTask ::
  "env \<Rightarrow> ContentItem \<Rightarrow> ContentItem \<Rightarrow> world \<Rightarrow> unit task \<times> world" where
  "handleContentItemDropTask en target item w =
     (if isInRecycleBin item then
        (Done (), emit (ShowErrorMessage FileDragFromTrashError (Some (name item))) w)
      else if isReference en item then
        (Done (), emit (ShowErrorMessage FileDragFromFavorites (Some (name item))) w)
      else if itemType target = TRASH_FOLDER_TYPE en then
        (case recycleResourceTask en item w of
           (t, w1) \<Rightarrow>
             (awaitThen t
                (\<lambda>success w2.
                   (Done (),
                    if \<not> success then emit (ShowErrorMessage FileDropError (Some (name item))) w2
                    else w2)),
              w1))
      else if itemType target = FAVORITES_FOLDER_TYPE en then
        (case addToMyFavoritesTask en item w of
           (t, w1) \<Rightarrow>
             (awaitThen t
                (\<lambda>success w2.
                   (Done (),
                    if \<not> success then emit (ShowErrorMessage FileDropError (Some (name item))) w2
                    else w2)),
              w1))
      else
        (let targetUri = getResourceIdFromItem en target
         in if truthy targetUri then
              (let success = model_moveTo en w item (the targetUri);
                   w1 = emit (ModelMoveTo item (the targetUri) success) w
               in (Step (\<lambda>w2.
                     (Done (),
                      if success then refresh w2
                      else emit (ShowErrorMessage FileDropError (Some (name item))) w2)),
                   w1))
            else (Done (), emit (ShowErrorMessage FileDropError (Some (name item))) w)))"

subsection \<open>Import of a local directory\<close>

text \<open>
  What \<^verbatim>\<open>lstat\<close>, \<^verbatim>\<open>readdir\<close> and \<^verbatim>\<open>readFile\<close> find at a local path: a file with its
  base name and content, or a directory with its base name and entries. Reading the local
  file system leaves no event; the task waits for it all the same.
\<close>

datatype fsentry = FsFile string string | FsDir string "fsentry list"

text \<open>
  The variable \<^verbatim>\<open>success\<close> of \<^verbatim>\<open>handleFolderDrop\<close> is shared by the tasks of the entries.
  A task writes to it, if it does, in its last part: the value of a task is what it writes.
  Since the variable starts as true, its value in the end is the last value written.
\<close>

fun lastWritten :: "bool \<Rightarrow> bool option list \<Rightarrow> bool" where
  "lastWritten success [] = success"
| "lastWritten success (None # writes) = lastWritten success writes"
| "lastWritten success (Some b # writes) = lastWritten b writes"

text \<open>
  \<^verbatim>\<open>handleFolderDrop(target, path, displayErrorMessages)\<close>, the path given by the base name
  and the entries of the directory there; \<^verbatim>\<open>folderDropEntry\<close> is the task of one entry
  and \<^verbatim>\<open>folderDropEntries\<close> starts the tasks of all. A call from within passes no third
  argument, so that \<^verbatim>\<open>displayErrorMessages\<close> is true there.
\<close>

function handleFolderDropTask ::
    "env \<Rightarrow> ContentItem \<Rightarrow> string \<Rightarrow> fsentry list \<Rightarrow> bool \<Rightarrow> world \<Rightarrow> bool task \<times> world"
  and folderDropEntries ::
    "env \<Rightarrow> ContentItem \<Rightarrow> bool \<Rightarrow> fsentry list \<Rightarrow> world \<Rightarrow> bool option task list \<times> world"
  and folderDropEntry ::
    "env \<Rightarrow> ContentItem \<Rightarrow> bool \<Rightarrow> fsentry \<Rightarrow> world \<Rightarrow> bool option task \<times> world"
where
  "handleFolderDropTask en target nm entries displayErrorMessages w =
     (let folder = model_createFolder en w target nm;
          w1 = emit (ModelCreateFolder target nm folder) w
      in (Step (\<lambda>w2.
            case folder of
              None \<Rightarrow>
                (Done False,
                 if displayErrorMessages then emit (ShowErrorMessage FileDropError (Some nm)) w2
                 else w2)
            | Some f \<Rightarrow>
                (Step (\<lambda>w3.
                   case folderDropEntries en f displayErrorMessages entries w3 of
                     (tasks, w4) \<Rightarrow>
                       (awaitThen (promiseAll (schedule en w4 (FolderEntries f)) tasks)
                          (\<lambda>writes w5. (Done (lastWritten True (map snd writes)), w5)),
                        w4)),
                 w2)),
          w1))"
| "folderDropEntries en folder displayErrorMessages [] w = ([], w)"
| "folderDropEntries en folder displayErrorMessages (e # rest) w =
     (case folderDropEntry en folder displayErrorMessages e w of
        (t, w1) \<Rightarrow>
          (case folderDropEntries en folder displayErrorMessages rest w1 of
             (ts, w2) \<Rightarrow> (t # ts, w2)))"
| "folderDropEntry en folder displayErrorMessages (FsDir n es) w =
     (Step (\<lambda>w1.
        case handleFolderDropTask en folder n es True w1 of
          (t, w2) \<Rightarrow> (awaitThen t (\<lambda>r w3. (Done (Some r), w3)), w2)),
      w)"
| "folderDropEntry en folder displayErrorMessages (FsFile n c) w =
     (Step (\<lambda>w1.
        (Step (\<lambda>w2.
           case createFileTask en folder n (Some c) w2 of
             (t, w3) \<Rightarrow>
               (awaitThen t
                  (\<lambda>fileCreated w4.
                     case fileCreated of
                       None \<Rightarrow>
                         (Done (Some False),
                          if displayErrorMessages
                          then emit (ShowErrorMessage FileDropError (Some n)) w4
                          else w4)
                     | Some u \<Rightarrow> (Done None, w4)),
                w3)),
         w1)),
      w)"
  by pat_completeness auto
termination
  by (relation "measure (\<lambda>x. case x of
          Inl (en, target, nm, entries, d, w) \<Rightarrow> Suc (2 * size_list size entries)
        | Inr (Inl (en, folder, d, entries, w)) \<Rightarrow> 2 * size_list size entries
        | Inr (Inr (en, folder, d, e, w)) \<Rightarrow> 2 * size e)") auto

definition handleFolderDrop ::
  "env \<Rightarrow> ContentItem \<Rightarrow> string \<Rightarrow> fsentry list \<Rightarrow> bool \<Rightarrow> world \<Rightarrow> bool \<times> world" where
  "handleFolderDrop en target nm entries displayErrorMessages w =
     (case handleFolderDropTask en target nm entries displayErrorMessages w of
        (t, w1) \<Rightarrow> runTask t w1)"

fun uploadLoop ::
  "env \<Rightarrow> ContentItem \<Rightarrow> fsentry list \<Rightarrow> string list \<Rightarrow> world \<Rightarrow> string list \<times> world" where
  "uploadLoop en target [] failedUploads w = (failedUploads, w)"
| "uploadLoop en target (FsDir n es # rest) failedUploads w =
     (case handleFolderDrop en target n es False w of
        (success, w1) \<Rightarrow>
          uploadLoop en target rest (if \<not> success then failedUploads @ [n] else failedUploads) w1)"
| "uploadLoop en target (FsFile n c # rest) failedUploads w =
     (case createFile en target n (Some c) w of
        (newUri, w1) \<Rightarrow>
          uploadLoop en target rest (if newUri = None then failedUploads @ [n] else failedUploads) w1)"

definition uploadUrisToTarget :: "env \<Rightarrow> fsentry list \<Rightarrow> ContentItem \<Rightarrow> world \<Rightarrow> world" where
  "uploadUrisToTarget en uris target w =
     (case uploadLoop en target uris [] w of
        (failedUploads, w1) \<Rightarrow>
          if length failedUploads > 0 then handleCreationResponse target None FileUploadError w1
          else w1)"

subsection \<open>Emptying the recycle bin\<close>

definition emptyRecycleBin :: "env \<Rightarrow> world \<Rightarrow> bool \<times> world" where
  "emptyRecycleBin en w =
     (let recycleBin = model_getDelegateFolder en w ''@myRecycleBin'';
          children = model_getChildren en w recycleBin;
          (tasks, w1) = startAll (deleteResourceTask en) children
                          (emit (ModelGetChildren recycleBin) w);
          (result, w2) = runTask (promiseAll (schedule en w1 EmptyTrash) tasks) w1;
          success = (length result = length children)
      in (success, if success then refresh w2 else w2))"

subsection \<open>Drops\<close>

text \<open>
  The task of one dropped URI. Its value is not in the source, where the task returns
  nothing: it is the variable \<^verbatim>\<open>success\<close> of the task when the URI is a directory, kept
  for the statements on the log.
\<close>

fun dataTransferItemTask ::
  "env \<Rightarrow> ContentItem \<Rightarrow> fsentry \<Rightarrow> world \<Rightarrow> bool option task \<times> world" where
  "dataTransferItemTask en target (FsDir n es) w =
     (Step (\<lambda>w1.
        case handleFolderDropTask en target n es True w1 of
          (t, w2) \<Rightarrow>
            (awaitThen t
               (\<lambda>success w3. (Done (Some success), if success then refresh w3 else w3)),
             w2)),
      w)"
| "dataTransferItemTask en target (FsFile n c) w =
     (Step (\<lambda>w1.
        (Step (\<lambda>w2.
           case createFileTask en target n (Some c) w2 of
             (t, w3) \<Rightarrow>
               (awaitThen t
                  (\<lambda>fileCreated w4.
                     (Done None,
                      if fileCreated = None
                      then emit (ShowErrorMessage FileDropError (Some n)) w4
                      else w4)),
                w3)),
         w1)),
      w)"

definition dataTransferItemResults ::
  "env \<Rightarrow> ContentItem \<Rightarrow> fsentry list \<Rightarrow> world \<Rightarrow> (nat \<times> bool option) list \<times> world" where
  "dataTransferItemResults en target uris w =
     (case startAll (dataTransferItemTask en target) uris w of
        (tasks, w1) \<Rightarrow> runTask (promiseAll (schedule en w1 DroppedUris) tasks) w1)"

definition handleDataTransferItemDrop ::
  "env \<Rightarrow> ContentItem \<Rightarrow> fsentry list \<Rightarrow> world \<Rightarrow> world" where
  "handleDataTransferItemDrop en target uris w = snd (dataTransferItemResults en target uris w)"

text \<open>
  The payload of a drop: under the provider's own mime type the dragged items, under
  \<^verbatim>\<open>text/uri-list\<close> the local files and directories that the listed URIs name.
  \<^const>\<open>None\<close> is an entry that is absent or whose value is falsy.
\<close>

record DataTransfer =
  contentItems :: "ContentItem list option"
  uriList :: "fsentry list option"

definition contentItemTask ::
  "env \<Rightarrow> ContentItem \<Rightarrow> ContentItem \<Rightarrow> world \<Rightarrow> unit task \<times> world" where
  "contentItemTask en target contentItem w =
     (case handleContentItemDropTask en target contentItem w of
        (t, w1) \<Rightarrow> (awaitThen t (\<lambda>u w2. (Done (), w2)), w1))"

definition handleDrop :: "env \<Rightarrow> ContentItem \<Rightarrow> DataTransfer \<Rightarrow> world \<Rightarrow> world" where
  "handleDrop en target sources w =
     (let w1 = (case contentItems sources of
                  None \<Rightarrow> w
                | Some items \<Rightarrow>
                    (case startAll (contentItemTask en target) items w of
                       (tasks, w0) \<Rightarrow>
                         snd (runTask (promiseAll (schedule en w0 DroppedItems) tasks) w0)));
          w2 = (case uriList sources of
                  None \<Rightarrow> w1
                | Some uris \<Rightarrow> handleDataTransferItemDrop en target uris w1)
      in w2)"

section \<open>Observations on the log\<close>

definition newEvents :: "world \<Rightarrow> world \<Rightarrow> event list" where
  "newEvents w w' = drop (length (log w)) (log w')"

definition refreshCount :: "event list \<Rightarrow> nat" where
  "refreshCount es = length (filter (\<lambda>e. e = Refresh) es)"

fun isTabClose :: "event \<Rightarrow> bool" where
  "isTabClose (TabClose t ok) = True"
| "isTabClose e = False"

text \<open>
  A call of the content model that changed the store on behalf of one dropped item: a file
  created, an item deleted, moved or added to the favorites.
\<close>

fun itemMutationOk :: "event \<Rightarrow> bool" where
  "itemMutationOk (ModelCreateFile p n b r) = (r \<noteq> None)"
| "itemMutationOk (ModelDelete i ok) = ok"
| "itemMutationOk (ModelMoveTo i u ok) = ok"
| "itemMutationOk (ModelAddFavorite i ok) = ok"
| "itemMutationOk e = False"

definition mutationCount :: "event list \<Rightarrow> nat" where
  "mutationCount es = length (filter itemMutationOk es)"

text \<open>
  The directories among the dropped URIs whose import returned true, read from the values of
  their tasks.
\<close>

definition importedDirectories :: "(nat \<times> bool option) list \<Rightarrow> nat" where
  "importedDirectories results = length (filter (\<lambda>r. snd r = Some True) results)"

text \<open>Where an event writes to the local file system.\<close>

fun fsTarget :: "event \<Rightarrow> Uri option" where
  "fsTarget (FsCreateDirectory u) = Some u"
| "fsTarget (FsWriteFile u c) = Some u"
| "fsTarget e = None"

subsection \<open>Order of an export\<close>

text \<open>
  The order of an export. \<^term>\<open>placed en D es\<close> holds when every directory that \<^term>\<open>es\<close>
  creates and every file that it writes is \<^verbatim>\<open>Uri.joinPath\<close> of a name and a directory that
  is in \<^term>\<open>D\<close> or that \<^term>\<open>es\<close> has created before.
\<close>

fun placed :: "env \<Rightarrow> Uri set \<Rightarrow> event list \<Rightarrow> bool" where
  "placed en D [] = True"
| "placed en D (FsCreateDirectory u # es) =
     ((\<exists>d n. d \<in> D \<and> u = joinPath en d n) \<and> placed en (insert u D) es)"
| "placed en D (FsWriteFile u c # es) = ((\<exists>d n. d \<in> D \<and> u = joinPath en d n) \<and> placed en D es)"
| "placed en D (e # es) = placed en D es"

subsection \<open>Balance of refreshes\<close>

text \<open>
  The balance of refreshes. \<^term>\<open>netRefresh es\<close> is how many more refreshes than item
  mutations \<^term>\<open>es\<close> holds. \<^term>\<open>settles g t b\<close> says of a task \<^term>\<open>t\<close> that is behind
  by \<^term>\<open>b\<close> so far: however it is resumed, every part of it only adds to the log, and when
  it is done with the value \<^term>\<open>a\<close> its balance is \<^term>\<open>g a\<close>. \<^term>\<open>starts g f b\<close> says the
  same of a method \<^term>\<open>f\<close> that is about to be called.
\<close>

definition netRefresh :: "event list \<Rightarrow> int" where
  "netRefresh es = int (refreshCount es) - int (mutationCount es)"

primrec settles :: "('a \<Rightarrow> int) \<Rightarrow> 'a task \<Rightarrow> int \<Rightarrow> bool" where
  "settles g (Done a) = (\<lambda>b. b = g a)"
| "settles g (Step k) =
     (\<lambda>b. \<forall>w. case map_prod (settles g) id (k w) of
                  (rest, w') \<Rightarrow> (\<exists>es. log w' = log w @ es \<and> rest (b + netRefresh es)))"

definition starts :: "('a \<Rightarrow> int) \<Rightarrow> (world \<Rightarrow> 'a task \<times> world) \<Rightarrow> int \<Rightarrow> bool" where
  "starts g f b =
     (\<forall>w. case f w of (t, w') \<Rightarrow> (\<exists>es. log w' = log w @ es \<and> settles g t (b + netRefresh es)))"

definition balanceOf :: "('a \<Rightarrow> int) \<Rightarrow> (nat \<times> 'a) list \<Rightarrow> int" where
  "balanceOf g results = sum_list (map (\<lambda>r. g (snd r)) results)"

section \<open>A small store to run the provider on\<close>

definition mkItem :: "string \<Rightarrow> string \<Rightarrow> string \<Rightarrow> string \<Rightarrow> ContentItem" where
  "mkItem nm u p t =
     \<lparr>name = nm, uri = u, parentFolderUri = p, itemType = t,
      links = [\<lparr>linkMethod = ''GET'', rel = ''self'', linkUri = u\<rparr>], isInRecycleBin = False\<rparr>"

definition recycleBinItem :: ContentItem where
  "recycleBinItem = mkItem ''Recycle Bin'' ''/folders/bin'' [] ''trashFolder''"

text \<open>
  A store in which every request succeeds and the user lets every tab close. Names are joined
  to a path as one more segment. Tasks that wait together are resumed one after the other,
  each to its end, in the order in which they were started.
\<close>

definition exampleEnv :: env where
  "exampleEnv =
     \<lparr>getUri = (\<lambda>item readOnly.
         \<lparr>path = [if readOnly then ''sasReadOnly'' else ''sas'', name item],
          query = ''id='' @ uri item\<rparr>),
      isItemInRecycleBin = isInRecycleBin,
      isReference = (\<lambda>item. itemType item = ''reference''),
      isContainer = (\<lambda>item. itemType item \<noteq> ''file'' \<and> itemType item \<noteq> ''reference''),
      getLink = (\<lambda>ls m r. find (\<lambda>l. linkMethod l = m \<and> rel l = r) ls),
      getResourceIdFromItem = (\<lambda>item. if uri item = [] then None else Some (uri item)),
      TRASH_FOLDER_TYPE = ''trashFolder'',
      FAVORITES_FOLDER_TYPE = ''favoritesFolder'',
      model_getDelegateFolder =
        (\<lambda>w n. if n = ''@myRecycleBin'' then Some recycleBinItem else None),
      model_getChildren = (\<lambda>w parent. []),
      model_getContentByUri = (\<lambda>w u. query u),
      model_createFolder =
        (\<lambda>w parent n. Some (mkItem n (uri parent @ ''/'' @ n) (uri parent) ''folder'')),
      model_createFile =
        (\<lambda>w parent n b. Some (mkItem n (uri parent @ ''/'' @ n) (uri parent) ''file'')),
      model_renameResource = (\<lambda>w item n. Some (item\<lparr>name := n\<rparr>)),
      model_delete = (\<lambda>w item. True),
      model_moveTo = (\<lambda>w item u. True),
      model_addFavorite = (\<lambda>w item. True),
      model_removeFavorite = (\<lambda>w item. True),
      tabGroups_close = (\<lambda>w t. True),
      joinPath = (\<lambda>u n. u\<lparr>path := path u @ [n]\<rparr>),
      schedule = (\<lambda>w s. [])\<rparr>"

definition emptyWorld :: world where
  "emptyWorld = \<lparr>tabGroups = [], log = []\<rparr>"

definition homeFolder :: ContentItem where
  "homeFolder = mkItem ''home'' ''/folders/home'' [] ''folder''"

definition fileA :: ContentItem where
  "fileA = mkItem ''a.sas'' ''/files/a'' ''/folders/home'' ''file''"

definition fileB :: ContentItem where
  "fileB = mkItem ''b.sas'' ''/files/b'' ''/folders/home'' ''file''"

definition trashedFileA :: ContentItem where
  "trashedFileA = fileA\<lparr>isInRecycleBin := True\<rparr>"

definition favoritesFolder :: ContentItem where
  "favoritesFolder = mkItem ''My Favorites'' ''/folders/fav'' [] ''favoritesFolder''"

text \<open>A folder for which \<^verbatim>\<open>getResourceIdFromItem\<close> of the example store finds no id.\<close>

definition unaddressedFolder :: ContentItem where
  "unaddressedFolder = mkItem ''SAS Content'' [] [] ''folder''"

text \<open>
  An editor with \<^const>\<open>fileA\<close> open in a text tab, under the name the file had before:
  the Uri of the tab has the query of the file's Uri and another path.
\<close>

definition tabA :: Tab where
  "tabA = \<lparr>label = ''old.sas'',
            input = TabInputText \<lparr>path = [''sas'', ''old.sas''], query = ''id=/files/a''\<rparr>\<rparr>"

definition editorWorld :: world where
  "editorWorld = \<lparr>tabGroups = [[tabA]], log = []\<rparr>"

text \<open>A folder with two files, and a local directory to export to.\<close>

definition folderA :: ContentItem where
  "folderA = mkItem ''A'' ''/folders/A'' ''/folders/home'' ''folder''"

definition fileAx :: ContentItem where
  "fileAx = mkItem ''x'' ''/files/x'' ''/folders/A'' ''file''"

definition fileAy :: ContentItem where
  "fileAy = mkItem ''y'' ''/files/y'' ''/folders/A'' ''file''"

definition destination :: Uri where
  "destination = \<lparr>path = [''tmp'', ''export''], query = []\<rparr>"

definition folderB :: ContentItem where
  "folderB = mkItem ''B'' ''/folders/B'' ''/folders/A'' ''folder''"

definition fileBz :: ContentItem where
  "fileBz = mkItem ''z'' ''/files/z'' ''/folders/B'' ''file''"

text \<open>A store that refuses to create the file \<^verbatim>\<open>a.sas\<close> and creates every other.\<close>

definition refusingEnv :: env where
  "refusingEnv =
     exampleEnv\<lparr>model_createFile :=
       (\<lambda>w parent n b. if n = ''a.sas'' then None
                        else Some (mkItem n (uri parent @ ''/'' @ n) (uri parent) ''file''))\<rparr>"

text \<open>A file of the recycle bin that remembers the folder it came from.\<close>

definition restorableFile :: ContentItem where
  "restorableFile =
     trashedFileA\<lparr>links := [\<lparr>linkMethod = ''GET'', rel = ''previousParent'',
                               linkUri = ''/folders/home''\<rparr>]\<rparr>"

section \<open>Basic facts\<close>

lemma log_emit [simp]: "log (emit e w) = log w @ [e]"
  by (simp add: emit_def)

lemma tabGroups_emit [simp]: "tabGroups (emit e w) = tabGroups w"
  by (simp add: emit_def)

lemma log_refresh [simp]: "log (refresh w) = log w @ [Refresh]"
  by (simp add: refresh_def)

lemma tabGroups_refresh [simp]: "tabGroups (refresh w) = tabGroups w"
  by (simp add: refresh_def)

lemma newEvents_append [simp]: "log w' = log w @ es \<Longrightarrow> newEvents w w' = es"
  by (simp add: newEvents_def)

lemma newEvents_same [simp]: "newEvents w w = []"
  by (simp add: newEvents_def)

lemma runTask_Step [simp]: "runTask (Step k) w = (case k w of (t, w') \<Rightarrow> runTask t w')"
  by (simp split: prod.splits)

lemma awaitThen_Step [simp]:
  "awaitThen (Step k) f = Step (\<lambda>w. case k w of (t, w') \<Rightarrow> (awaitThen t f, w'))"
  by (auto simp add: fun_eq_iff split: prod.splits)

text \<open>The two ways \<^const>\<open>closeFileIfOpen\<close> ends.\<close>

lemma closeFileIfOpen_cases:
  "closeFileIfOpen en item w = (LiteralTrue, w) \<or>
   (\<exists>t ok. find (tabMatches (getUri en item (isItemInRecycleBin en item))) (concat (tabGroups w)) = Some t
      \<and> ok = tabGroups_close en w t
      \<and> closeFileIfOpen en item w =
         (ClosePromise ok,
          emit (TabClose t ok) (if ok then w\<lparr>tabGroups := removeTab t (tabGroups w)\<rparr> else w)))"
  by (cases "find (tabMatches (getUri en item (isItemInRecycleBin en item))) (concat (tabGroups w))")
    (simp_all add: closeFileIfOpen_def Let_def)

section \<open>Emptying the recycle bin\<close>

text \<open>
  C1. \<^verbatim>\<open>emptyRecycleBin\<close> is to report success if and only if every child was deleted.
  On a bin with two children, where the model refuses to delete the first, the code reports
  success all the same, and asks for a refresh of the tree.
\<close>

theorem emptyRecycleBin_ignores_failed_delete:
  "emptyRecycleBin
     (exampleEnv\<lparr>model_getChildren := (\<lambda>w parent. [fileA, fileB]),
                 model_delete := (\<lambda>w item. item \<noteq> fileA)\<rparr>) emptyWorld
   = (True, \<lparr>tabGroups = [],
             log = [ModelGetChildren (Some recycleBinItem), ModelDelete fileA False,
                    ModelDelete fileB True, Refresh, Refresh]\<rparr>)"
  by (simp add: emptyRecycleBin_def exampleEnv_def emptyWorld_def deleteResourceTask_def promiseAll_def
      closeFileIfOpen_def emit_def refresh_def fileA_def fileB_def mkItem_def)

section \<open>The success flag of a folder import\<close>

text \<open>
  C2. The flag \<^verbatim>\<open>success\<close> of \<^verbatim>\<open>handleFolderDrop\<close> is to go to false only, so that a
  directory with a failed entry is reported as failed. In a directory with a file that the
  store refuses and a subdirectory that is imported after it, the task of the subdirectory
  assigns its own result to the flag, and the import of the directory returns true. The
  example store resumes the task of the file to its end before that of the subdirectory.
\<close>

theorem handleFolderDrop_success_flips_back:
  "handleFolderDrop (exampleEnv\<lparr>model_createFile := (\<lambda>w parent n b. None)\<rparr>) homeFolder ''dir''
     [FsFile ''a.sas'' ''data'', FsDir ''sub'' []] True emptyWorld
   = (True, \<lparr>tabGroups = [],
       log = [ModelCreateFolder homeFolder ''dir''
                (Some (mkItem ''dir'' ''/folders/home/dir'' ''/folders/home'' ''folder'')),
              ModelCreateFile (mkItem ''dir'' ''/folders/home/dir'' ''/folders/home'' ''folder'')
                ''a.sas'' (Some ''data'') None,
              ShowErrorMessage FileDropError (Some ''a.sas''),
              ModelCreateFolder (mkItem ''dir'' ''/folders/home/dir'' ''/folders/home'' ''folder'')
                ''sub''
                (Some (mkItem ''sub'' ''/folders/home/dir/sub'' ''/folders/home/dir'' ''folder''))]\<rparr>)"
  by (simp add: handleFolderDrop_def exampleEnv_def emptyWorld_def createFileTask_def
      promiseAll_def emit_def refresh_def homeFolder_def mkItem_def)

section \<open>Refreshes of the tree by the single operations\<close>

lemma closeFileIfOpen_no_refresh:
  "refreshCount (newEvents w (snd (closeFileIfOpen en item w))) = 0"
  using closeFileIfOpen_cases [of en item w]
  by (auto simp add: refreshCount_def)

text \<open>
  C10. Each of \<^verbatim>\<open>createFolder\<close>, \<^verbatim>\<open>createFile\<close>, \<^verbatim>\<open>addToMyFavorites\<close> and
  \<^verbatim>\<open>removeFromMyFavorites\<close> calls the model once, returns what the model answers, and
  asks for a refresh of the tree exactly when the answer is a success. So do
  \<^verbatim>\<open>deleteResource\<close>, \<^verbatim>\<open>recycleResource\<close> and \<^verbatim>\<open>restoreResource\<close> once the editor
  of the item is out of the way; when the tab is not closed, or the address to move to is
  missing, they return false, the model is not called and there is no refresh.
  \<^verbatim>\<open>renameResource\<close> returns the Uri of the item that the model answers and never asks
  for a refresh.
\<close>

theorem refresh_iff_model_success:
  "createFolder en item nm w =
     (map_option (\<lambda>ni. getUri en ni False) (model_createFolder en w item nm),
      w\<lparr>log := log w @ ModelCreateFolder item nm (model_createFolder en w item nm) #
                  (if model_createFolder en w item nm = None then [] else [Refresh])\<rparr>) \<and>
   createFile en item nm buffer w =
     (map_option (\<lambda>ni. getUri en ni False) (model_createFile en w item nm buffer),
      w\<lparr>log := log w @ ModelCreateFile item nm buffer (model_createFile en w item nm buffer) #
                  (if model_createFile en w item nm buffer = None then [] else [Refresh])\<rparr>) \<and>
   addToMyFavorites en item w =
     (model_addFavorite en w item,
      w\<lparr>log := log w @ ModelAddFavorite item (model_addFavorite en w item) #
                  (if model_addFavorite en w item then [Refresh] else [])\<rparr>) \<and>
   removeFromMyFavorites en item w =
     (model_removeFavorite en w item,
      w\<lparr>log := log w @ ModelRemoveFavorite item (model_removeFavorite en w item) #
                  (if model_removeFavorite en w item then [Refresh] else [])\<rparr>) \<and>
   refreshCount (newEvents w (snd (closeFileIfOpen en item w))) = 0 \<and>
   (\<forall>closing w1. closeFileIfOpen en item w = (closing, w1) \<longrightarrow>
      deleteResource en item w =
        (if awaitClosing closing then
           (model_delete en w1 item,
            w1\<lparr>log := log w1 @ ModelDelete item (model_delete en w1 item) #
                          (if model_delete en w1 item then [Refresh] else [])\<rparr>)
         else (False, w1)) \<and>
      (model_getDelegateFolder en w ''@myRecycleBin'' = None \<longrightarrow>
         recycleResource en item w = deleteResource en item w) \<and>
      (\<forall>recycleBin address.
         model_getDelegateFolder en w ''@myRecycleBin'' = Some recycleBin \<and>
         address = map_option linkUri (getLink en (links recycleBin) ''GET'' ''self'') \<longrightarrow>
         recycleResource en item w =
           (if \<not> truthy address then (False, w)
            else if awaitClosing closing then
              (model_moveTo en w1 item (the address),
               w1\<lparr>log := log w1 @
                    ModelMoveTo item (the address) (model_moveTo en w1 item (the address)) #
                    (if model_moveTo en w1 item (the address)
                     then [Refresh, DidChange (getUri en item True)] else [])\<rparr>)
            else (False, w1))) \<and>
      (\<forall>address.
         address = map_option linkUri (getLink en (links item) ''GET'' ''previousParent'') \<longrightarrow>
         restoreResource en item w =
           (if \<not> truthy address then (False, w)
            else if awaitClosing closing then
              (model_moveTo en w1 item (the address),
               w1\<lparr>log := log w1 @
                    ModelMoveTo item (the address) (model_moveTo en w1 item (the address)) #
                    (if model_moveTo en w1 item (the address) then [Refresh] else [])\<rparr>)
            else (False, w1))) \<and>
      fst (renameResource en item nm w) =
        (if awaitClosing closing
         then map_option (\<lambda>ni. getUri en ni False) (model_renameResource en w1 item nm)
         else None)) \<and>
   refreshCount (newEvents w (snd (renameResource en item nm w))) = 0"
proof -
  have cf: "createFolder en item nm w =
     (map_option (\<lambda>ni. getUri en ni False) (model_createFolder en w item nm),
      w\<lparr>log := log w @ ModelCreateFolder item nm (model_createFolder en w item nm) #
                  (if model_createFolder en w item nm = None then [] else [Refresh])\<rparr>)"
    by (simp add: createFolder_def Let_def emit_def refresh_def split: option.splits)
  have cfi: "createFile en item nm buffer w =
     (map_option (\<lambda>ni. getUri en ni False) (model_createFile en w item nm buffer),
      w\<lparr>log := log w @ ModelCreateFile item nm buffer (model_createFile en w item nm buffer) #
                  (if model_createFile en w item nm buffer = None then [] else [Refresh])\<rparr>)"
    by (simp add: createFile_def Let_def emit_def refresh_def split: option.splits)
  have addf: "addToMyFavorites en item w =
     (model_addFavorite en w item,
      w\<lparr>log := log w @ ModelAddFavorite item (model_addFavorite en w item) #
                  (if model_addFavorite en w item then [Refresh] else [])\<rparr>)"
    by (simp add: addToMyFavorites_def Let_def emit_def refresh_def)
  have remf: "removeFromMyFavorites en item w =
     (model_removeFavorite en w item,
      w\<lparr>log := log w @ ModelRemoveFavorite item (model_removeFavorite en w item) #
                  (if model_removeFavorite en w item then [Refresh] else [])\<rparr>)"
    by (simp add: removeFromMyFavorites_def Let_def emit_def refresh_def)
  have ren: "refreshCount (newEvents w (snd (renameResource en item nm w))) = 0"
    using closeFileIfOpen_cases [of en item w]
    by (auto simp add: renameResource_def Let_def refreshCount_def split: option.splits)
  have rest: "deleteResource en item w =
        (if awaitClosing closing then
           (model_delete en w1 item,
            w1\<lparr>log := log w1 @ ModelDelete item (model_delete en w1 item) #
                          (if model_delete en w1 item then [Refresh] else [])\<rparr>)
         else (False, w1)) \<and>
      (model_getDelegateFolder en w ''@myRecycleBin'' = None \<longrightarrow>
         recycleResource en item w = deleteResource en item w) \<and>
      (\<forall>recycleBin address.
         model_getDelegateFolder en w ''@myRecycleBin'' = Some recycleBin \<and>
         address = map_option linkUri (getLink en (links recycleBin) ''GET'' ''self'') \<longrightarrow>
         recycleResource en item w =
           (if \<not> truthy address then (False, w)
            else if awaitClosing closing then
              (model_moveTo en w1 item (the address),
               w1\<lparr>log := log w1 @
                    ModelMoveTo item (the address) (model_moveTo en w1 item (the address)) #
                    (if model_moveTo en w1 item (the address)
                     then [Refresh, DidChange (getUri en item True)] else [])\<rparr>)
            else (False, w1))) \<and>
      (\<forall>address.
         address = map_option linkUri (getLink en (links item) ''GET'' ''previousParent'') \<longrightarrow>
         restoreResource en item w =
           (if \<not> truthy address then (False, w)
            else if awaitClosing closing then
              (model_moveTo en w1 item (the address),
               w1\<lparr>log := log w1 @
                    ModelMoveTo item (the address) (model_moveTo en w1 item (the address)) #
                    (if model_moveTo en w1 item (the address) then [Refresh] else [])\<rparr>)
            else (False, w1))) \<and>
      fst (renameResource en item nm w) =
        (if awaitClosing closing
         then map_option (\<lambda>ni. getUri en ni False) (model_renameResource en w1 item nm)
         else None)"
    if c: "closeFileIfOpen en item w = (closing, w1)" for closing w1
  proof -
    have d: "deleteResource en item w =
        (if awaitClosing closing then
           (model_delete en w1 item,
            w1\<lparr>log := log w1 @ ModelDelete item (model_delete en w1 item) #
                          (if model_delete en w1 item then [Refresh] else [])\<rparr>)
         else (False, w1))"
      by (simp add: deleteResource_def c Let_def emit_def refresh_def)
    have r0: "recycleResource en item w = deleteResource en item w"
      if "model_getDelegateFolder en w ''@myRecycleBin'' = None"
      using that by (simp add: recycleResource_def)
    have r1: "recycleResource en item w =
           (if \<not> truthy address then (False, w)
            else if awaitClosing closing then
              (model_moveTo en w1 item (the address),
               w1\<lparr>log := log w1 @
                    ModelMoveTo item (the address) (model_moveTo en w1 item (the address)) #
                    (if model_moveTo en w1 item (the address)
                     then [Refresh, DidChange (getUri en item True)] else [])\<rparr>)
            else (False, w1))"
      if "model_getDelegateFolder en w ''@myRecycleBin'' = Some recycleBin"
        "address = map_option linkUri (getLink en (links recycleBin) ''GET'' ''self'')"
      for recycleBin address
      using that by (simp add: recycleResource_def c Let_def emit_def refresh_def)
    have s: "restoreResource en item w =
           (if \<not> truthy address then (False, w)
            else if awaitClosing closing then
              (model_moveTo en w1 item (the address),
               w1\<lparr>log := log w1 @
                    ModelMoveTo item (the address) (model_moveTo en w1 item (the address)) #
                    (if model_moveTo en w1 item (the address) then [Refresh] else [])\<rparr>)
            else (False, w1))"
      if "address = map_option linkUri (getLink en (links item) ''GET'' ''previousParent'')"
      for address
      using that by (simp add: restoreResource_def c Let_def emit_def refresh_def)
    have n: "fst (renameResource en item nm w) =
        (if awaitClosing closing
         then map_option (\<lambda>ni. getUri en ni False) (model_renameResource en w1 item nm)
         else None)"
      by (simp add: renameResource_def c Let_def split: option.splits)
    show ?thesis using d r0 r1 s n by blast
  qed
  show ?thesis
    using cf cfi addf remf closeFileIfOpen_no_refresh [of w en item] rest ren by blast
qed

text \<open>
  In the example store every operation succeeds and is followed by its refresh, but for the
  rename. When the model refuses, or when the user keeps the tab of the file open, the
  deletion returns false without a refresh.
\<close>

theorem refresh_iff_model_success_witness:
  "createFolder exampleEnv homeFolder ''new'' emptyWorld =
     (Some \<lparr>path = [''sas'', ''new''], query = ''id=/folders/home/new''\<rparr>,
      \<lparr>tabGroups = [],
       log = [ModelCreateFolder homeFolder ''new''
                (Some (mkItem ''new'' ''/folders/home/new'' ''/folders/home'' ''folder'')),
              Refresh]\<rparr>) \<and>
   createFile (exampleEnv\<lparr>model_createFile := (\<lambda>w parent n b. None)\<rparr>) homeFolder ''new.sas''
     None emptyWorld =
     (None, \<lparr>tabGroups = [], log = [ModelCreateFile homeFolder ''new.sas'' None None]\<rparr>) \<and>
   addToMyFavorites exampleEnv fileA emptyWorld =
     (True, \<lparr>tabGroups = [], log = [ModelAddFavorite fileA True, Refresh]\<rparr>) \<and>
   removeFromMyFavorites exampleEnv fileA emptyWorld =
     (True, \<lparr>tabGroups = [], log = [ModelRemoveFavorite fileA True, Refresh]\<rparr>) \<and>
   deleteResource exampleEnv fileA emptyWorld =
     (True, \<lparr>tabGroups = [], log = [ModelDelete fileA True, Refresh]\<rparr>) \<and>
   deleteResource (exampleEnv\<lparr>model_delete := (\<lambda>w item. False)\<rparr>) fileA emptyWorld =
     (False, \<lparr>tabGroups = [], log = [ModelDelete fileA False]\<rparr>) \<and>
   deleteResource (exampleEnv\<lparr>tabGroups_close := (\<lambda>w t. False)\<rparr>) fileA editorWorld =
     (False, \<lparr>tabGroups = [[tabA]], log = [TabClose tabA False]\<rparr>) \<and>
   restoreResource exampleEnv restorableFile emptyWorld =
     (True, \<lparr>tabGroups = [],
             log = [ModelMoveTo restorableFile ''/folders/home'' True, Refresh]\<rparr>) \<and>
   fst (renameResource exampleEnv fileA ''b.sas'' emptyWorld) =
     Some \<lparr>path = [''sas'', ''b.sas''], query = ''id=/files/a''\<rparr> \<and>
   refreshCount (newEvents emptyWorld (snd (renameResource exampleEnv fileA ''b.sas'' emptyWorld)))
     = 0"
proof -
  have c0: "closeFileIfOpen exampleEnv fileA emptyWorld = (LiteralTrue, emptyWorld)"
    by (simp add: closeFileIfOpen_def exampleEnv_def emptyWorld_def Let_def)
  have c1: "closeFileIfOpen (exampleEnv\<lparr>model_delete := (\<lambda>w item. False)\<rparr>) fileA emptyWorld =
      (LiteralTrue, emptyWorld)"
    by (simp add: closeFileIfOpen_def exampleEnv_def emptyWorld_def Let_def)
  have c2: "closeFileIfOpen (exampleEnv\<lparr>tabGroups_close := (\<lambda>w t. False)\<rparr>) fileA editorWorld =
      (ClosePromise False, \<lparr>tabGroups = [[tabA]], log = [TabClose tabA False]\<rparr>)"
    by (simp add: closeFileIfOpen_def exampleEnv_def editorWorld_def tabA_def fileA_def
        mkItem_def Let_def emit_def)
  have c3: "closeFileIfOpen exampleEnv restorableFile emptyWorld = (LiteralTrue, emptyWorld)"
    by (simp add: closeFileIfOpen_def exampleEnv_def emptyWorld_def Let_def)
  have l: "map_option linkUri (getLink exampleEnv (links restorableFile) ''GET'' ''previousParent'')
      = Some ''/folders/home''"
    by (simp add: exampleEnv_def restorableFile_def trashedFileA_def fileA_def mkItem_def)
  note a = refresh_iff_model_success [of exampleEnv homeFolder "''new''" emptyWorld None]
  note b = refresh_iff_model_success
             [of "exampleEnv\<lparr>model_createFile := (\<lambda>w parent n b. None)\<rparr>" homeFolder "''new.sas''"
               emptyWorld None]
  note c = refresh_iff_model_success [of exampleEnv fileA "''b.sas''" emptyWorld None]
  note d = refresh_iff_model_success
             [of "exampleEnv\<lparr>model_delete := (\<lambda>w item. False)\<rparr>" fileA "''b.sas''" emptyWorld None]
  note e = refresh_iff_model_success
             [of "exampleEnv\<lparr>tabGroups_close := (\<lambda>w t. False)\<rparr>" fileA "''b.sas''" editorWorld
               None]
  note f = refresh_iff_model_success [of exampleEnv restorableFile "''b.sas''" emptyWorld None]
  have 1: "createFolder exampleEnv homeFolder ''new'' emptyWorld =
     (Some \<lparr>path = [''sas'', ''new''], query = ''id=/folders/home/new''\<rparr>,
      \<lparr>tabGroups = [],
       log = [ModelCreateFolder homeFolder ''new''
                (Some (mkItem ''new'' ''/folders/home/new'' ''/folders/home'' ''folder'')),
              Refresh]\<rparr>)"
    using a [THEN conjunct1]
    by (simp add: exampleEnv_def emptyWorld_def homeFolder_def mkItem_def)
  have 2: "createFile (exampleEnv\<lparr>model_createFile := (\<lambda>w parent n b. None)\<rparr>) homeFolder
     ''new.sas'' None emptyWorld =
     (None, \<lparr>tabGroups = [], log = [ModelCreateFile homeFolder ''new.sas'' None None]\<rparr>)"
    using b [THEN conjunct2, THEN conjunct1]
    by (simp add: exampleEnv_def emptyWorld_def)
  have 3: "addToMyFavorites exampleEnv fileA emptyWorld =
     (True, \<lparr>tabGroups = [], log = [ModelAddFavorite fileA True, Refresh]\<rparr>)"
    using c [THEN conjunct2, THEN conjunct2, THEN conjunct1]
    by (simp add: exampleEnv_def emptyWorld_def)
  have 4: "removeFromMyFavorites exampleEnv fileA emptyWorld =
     (True, \<lparr>tabGroups = [], log = [ModelRemoveFavorite fileA True, Refresh]\<rparr>)"
    using c [THEN conjunct2, THEN conjunct2, THEN conjunct2, THEN conjunct1]
    by (simp add: exampleEnv_def emptyWorld_def)
  note c6 = c [THEN conjunct2, THEN conjunct2, THEN conjunct2, THEN conjunct2, THEN conjunct2,
               THEN conjunct1, rule_format, OF c0]
  note d6 = d [THEN conjunct2, THEN conjunct2, THEN conjunct2, THEN conjunct2, THEN conjunct2,
               THEN conjunct1, rule_format, OF c1]
  note e6 = e [THEN conjunct2, THEN conjunct2, THEN conjunct2, THEN conjunct2, THEN conjunct2,
               THEN conjunct1, rule_format, OF c2]
  note f6 = f [THEN conjunct2, THEN conjunct2, THEN conjunct2, THEN conjunct2, THEN conjunct2,
               THEN conjunct1, rule_format, OF c3]
  have 5: "deleteResource exampleEnv fileA emptyWorld =
     (True, \<lparr>tabGroups = [], log = [ModelDelete fileA True, Refresh]\<rparr>)"
    using c6 [THEN conjunct1] by (simp add: exampleEnv_def emptyWorld_def)
  have 6: "deleteResource (exampleEnv\<lparr>model_delete := (\<lambda>w item. False)\<rparr>) fileA emptyWorld =
     (False, \<lparr>tabGroups = [], log = [ModelDelete fileA False]\<rparr>)"
    using d6 [THEN conjunct1] by (simp add: exampleEnv_def emptyWorld_def)
  have 7: "deleteResource (exampleEnv\<lparr>tabGroups_close := (\<lambda>w t. False)\<rparr>) fileA editorWorld =
     (False, \<lparr>tabGroups = [[tabA]], log = [TabClose tabA False]\<rparr>)"
    using e6 [THEN conjunct1] by simp
  have 8: "restoreResource exampleEnv restorableFile emptyWorld =
     (True, \<lparr>tabGroups = [],
             log = [ModelMoveTo restorableFile ''/folders/home'' True, Refresh]\<rparr>)"
    using f6 [THEN conjunct2, THEN conjunct2, THEN conjunct2, THEN conjunct1, rule_format, OF refl]
    unfolding l by (simp add: exampleEnv_def emptyWorld_def)
  have 9: "fst (renameResource exampleEnv fileA ''b.sas'' emptyWorld) =
     Some \<lparr>path = [''sas'', ''b.sas''], query = ''id=/files/a''\<rparr>"
    using c6 [THEN conjunct2, THEN conjunct2, THEN conjunct2, THEN conjunct2]
    by (simp add: exampleEnv_def emptyWorld_def fileA_def mkItem_def)
  have 10: "refreshCount (newEvents emptyWorld
      (snd (renameResource exampleEnv fileA ''b.sas'' emptyWorld))) = 0"
    by (rule c [THEN conjunct2, THEN conjunct2, THEN conjunct2, THEN conjunct2, THEN conjunct2,
                THEN conjunct2])
  show ?thesis using 1 2 3 4 5 6 7 8 9 10 by blast
qed

section \<open>Closing the editor of an item\<close>

lemma find_tabMatches_None:
  "(find (tabMatches fileUri) tabs = None) =
   (\<forall>t\<in>set tabs. \<forall>u.
      (input t = TabInputText u \<or> input t = TabInputNotebook u) \<longrightarrow> query u \<noteq> query fileUri)"
  by (auto simp add: find_None_iff split: TabInput.splits)

lemma closeFileIfOpen_LiteralTrue:
  "(fst (closeFileIfOpen en item w) = LiteralTrue) =
   (find (tabMatches (getUri en item (isItemInRecycleBin en item))) (concat (tabGroups w)) = None)"
  by (simp add: closeFileIfOpen_def Let_def split: option.splits)

lemma closeFileIfOpen_no_tab:
  "find (tabMatches (getUri en item (isItemInRecycleBin en item))) (concat (tabGroups w)) = None
   \<Longrightarrow> closeFileIfOpen en item w = (LiteralTrue, w)"
  by (simp add: closeFileIfOpen_def Let_def)

lemma closeFileIfOpen_tab:
  "find (tabMatches (getUri en item (isItemInRecycleBin en item))) (concat (tabGroups w)) = Some t
   \<Longrightarrow> closeFileIfOpen en item w =
     (ClosePromise (tabGroups_close en w t),
      emit (TabClose t (tabGroups_close en w t))
        (if tabGroups_close en w t then w\<lparr>tabGroups := removeTab t (tabGroups w)\<rparr> else w))"
  by (simp add: closeFileIfOpen_def Let_def)

text \<open>
  C9. \<^verbatim>\<open>closeFileIfOpen\<close> takes the Uri of the item, read-only exactly when the item is in
  the recycle bin, and looks among all tabs for a text or notebook tab whose Uri has the same
  query; nothing else of the two Uris is compared. It returns the literal \<^verbatim>\<open>true\<close>
  exactly when there is no such tab, and then it has done nothing, and the four operations
  that call it go on without a request to close a tab: a rename and a deletion go straight to
  the model, recycling goes to the deletion or to the move into the bin, and restoring goes
  to the move to the previous parent, each with its refresh when the model succeeds.
\<close>

theorem closeFileIfOpen_compares_query:
  "(fst (closeFileIfOpen en item w) = LiteralTrue) =
     (\<forall>t\<in>set (concat (tabGroups w)). \<forall>u.
         (input t = TabInputText u \<or> input t = TabInputNotebook u) \<longrightarrow>
         query u \<noteq> query (getUri en item (isItemInRecycleBin en item))) \<and>
   (fst (closeFileIfOpen en item w) = LiteralTrue \<longrightarrow>
      closeFileIfOpen en item w = (LiteralTrue, w) \<and>
      newEvents w (snd (renameResource en item nm w)) =
        [ModelRenameResource item nm (model_renameResource en w item nm)] \<and>
      take 1 (newEvents w (snd (deleteResource en item w))) =
        [ModelDelete item (model_delete en w item)] \<and>
      \<not> list_ex isTabClose (newEvents w (snd (recycleResource en item w))) \<and>
      \<not> list_ex isTabClose (newEvents w (snd (restoreResource en item w))) \<and>
      deleteResource en item w =
        (model_delete en w item,
         w\<lparr>log := log w @ ModelDelete item (model_delete en w item) #
                     (if model_delete en w item then [Refresh] else [])\<rparr>) \<and>
      (model_getDelegateFolder en w ''@myRecycleBin'' = None \<longrightarrow>
         recycleResource en item w =
           (model_delete en w item,
            w\<lparr>log := log w @ ModelDelete item (model_delete en w item) #
                        (if model_delete en w item then [Refresh] else [])\<rparr>)) \<and>
      (\<forall>recycleBin l.
         model_getDelegateFolder en w ''@myRecycleBin'' = Some recycleBin \<and>
         getLink en (links recycleBin) ''GET'' ''self'' = Some l \<and> linkUri l \<noteq> [] \<longrightarrow>
         recycleResource en item w =
           (model_moveTo en w item (linkUri l),
            w\<lparr>log := log w @ ModelMoveTo item (linkUri l) (model_moveTo en w item (linkUri l)) #
                        (if model_moveTo en w item (linkUri l)
                         then [Refresh, DidChange (getUri en item True)] else [])\<rparr>)) \<and>
      (\<forall>l. getLink en (links item) ''GET'' ''previousParent'' = Some l \<and> linkUri l \<noteq> [] \<longrightarrow>
         restoreResource en item w =
           (model_moveTo en w item (linkUri l),
            w\<lparr>log := log w @ ModelMoveTo item (linkUri l) (model_moveTo en w item (linkUri l)) #
                        (if model_moveTo en w item (linkUri l) then [Refresh] else [])\<rparr>)))"
proof -
  have a: "(fst (closeFileIfOpen en item w) = LiteralTrue) =
     (\<forall>t\<in>set (concat (tabGroups w)). \<forall>u.
         (input t = TabInputText u \<or> input t = TabInputNotebook u) \<longrightarrow>
         query u \<noteq> query (getUri en item (isItemInRecycleBin en item)))"
    unfolding closeFileIfOpen_LiteralTrue find_tabMatches_None ..
  have b: "closeFileIfOpen en item w = (LiteralTrue, w) \<and>
      newEvents w (snd (renameResource en item nm w)) =
        [ModelRenameResource item nm (model_renameResource en w item nm)] \<and>
      take 1 (newEvents w (snd (deleteResource en item w))) =
        [ModelDelete item (model_delete en w item)] \<and>
      \<not> list_ex isTabClose (newEvents w (snd (recycleResource en item w))) \<and>
      \<not> list_ex isTabClose (newEvents w (snd (restoreResource en item w))) \<and>
      deleteResource en item w =
        (model_delete en w item,
         w\<lparr>log := log w @ ModelDelete item (model_delete en w item) #
                     (if model_delete en w item then [Refresh] else [])\<rparr>) \<and>
      (model_getDelegateFolder en w ''@myRecycleBin'' = None \<longrightarrow>
         recycleResource en item w =
           (model_delete en w item,
            w\<lparr>log := log w @ ModelDelete item (model_delete en w item) #
                        (if model_delete en w item then [Refresh] else [])\<rparr>)) \<and>
      (\<forall>recycleBin l.
         model_getDelegateFolder en w ''@myRecycleBin'' = Some recycleBin \<and>
         getLink en (links recycleBin) ''GET'' ''self'' = Some l \<and> linkUri l \<noteq> [] \<longrightarrow>
         recycleResource en item w =
           (model_moveTo en w item (linkUri l),
            w\<lparr>log := log w @ ModelMoveTo item (linkUri l) (model_moveTo en w item (linkUri l)) #
                        (if model_moveTo en w item (linkUri l)
                         then [Refresh, DidChange (getUri en item True)] else [])\<rparr>)) \<and>
      (\<forall>l. getLink en (links item) ''GET'' ''previousParent'' = Some l \<and> linkUri l \<noteq> [] \<longrightarrow>
         restoreResource en item w =
           (model_moveTo en w item (linkUri l),
            w\<lparr>log := log w @ ModelMoveTo item (linkUri l) (model_moveTo en w item (linkUri l)) #
                        (if model_moveTo en w item (linkUri l) then [Refresh] else [])\<rparr>))"
    if "fst (closeFileIfOpen en item w) = LiteralTrue"
  proof -
    from that have c: "closeFileIfOpen en item w = (LiteralTrue, w)"
      by (simp add: closeFileIfOpen_LiteralTrue closeFileIfOpen_no_tab)
    have r: "newEvents w (snd (renameResource en item nm w)) =
        [ModelRenameResource item nm (model_renameResource en w item nm)]"
      by (simp add: renameResource_def c Let_def split: option.splits)
    have d: "take 1 (newEvents w (snd (deleteResource en item w))) =
        [ModelDelete item (model_delete en w item)]"
      by (simp add: deleteResource_def c Let_def)
    have rc: "\<not> list_ex isTabClose (newEvents w (snd (recycleResource en item w)))"
      by (simp add: recycleResource_def deleteResource_def c Let_def split: option.splits)
    have rs: "\<not> list_ex isTabClose (newEvents w (snd (restoreResource en item w)))"
      by (simp add: restoreResource_def c Let_def)
    have d2: "deleteResource en item w =
        (model_delete en w item,
         w\<lparr>log := log w @ ModelDelete item (model_delete en w item) #
                     (if model_delete en w item then [Refresh] else [])\<rparr>)"
      by (simp add: deleteResource_def c Let_def emit_def refresh_def)
    have rc1: "recycleResource en item w =
           (model_delete en w item,
            w\<lparr>log := log w @ ModelDelete item (model_delete en w item) #
                        (if model_delete en w item then [Refresh] else [])\<rparr>)"
      if "model_getDelegateFolder en w ''@myRecycleBin'' = None"
      using that d2 by (simp add: recycleResource_def)
    have rc2: "recycleResource en item w =
           (model_moveTo en w item (linkUri l),
            w\<lparr>log := log w @ ModelMoveTo item (linkUri l) (model_moveTo en w item (linkUri l)) #
                        (if model_moveTo en w item (linkUri l)
                         then [Refresh, DidChange (getUri en item True)] else [])\<rparr>)"
      if "model_getDelegateFolder en w ''@myRecycleBin'' = Some recycleBin"
        "getLink en (links recycleBin) ''GET'' ''self'' = Some l" "linkUri l \<noteq> []"
      for recycleBin l
      using that by (simp add: recycleResource_def c Let_def emit_def refresh_def)
    have rs2: "restoreResource en item w =
           (model_moveTo en w item (linkUri l),
            w\<lparr>log := log w @ ModelMoveTo item (linkUri l) (model_moveTo en w item (linkUri l)) #
                        (if model_moveTo en w item (linkUri l) then [Refresh] else [])\<rparr>)"
      if "getLink en (links item) ''GET'' ''previousParent'' = Some l" "linkUri l \<noteq> []" for l
      using that by (simp add: restoreResource_def c Let_def emit_def refresh_def)
    show ?thesis using c r d rc rs d2 rc1 rc2 rs2 by blast
  qed
  show ?thesis using a b by blast
qed

text \<open>
  With no tab open the answer is the literal \<^verbatim>\<open>true\<close> and the rename is the only event;
  the file is recycled by a move into the bin, and a file of the bin is restored by a move to
  its previous parent. With the tab of \<^const>\<open>editorWorld\<close>, whose Uri differs from the Uri
  of the file in its path, the tab is found and closed.
\<close>

theorem closeFileIfOpen_compares_query_witness:
  "closeFileIfOpen exampleEnv fileA emptyWorld = (LiteralTrue, emptyWorld) \<and>
   newEvents emptyWorld (snd (renameResource exampleEnv fileA ''b.sas'' emptyWorld)) =
     [ModelRenameResource fileA ''b.sas'' (Some (fileA\<lparr>name := ''b.sas''\<rparr>))] \<and>
   input tabA \<noteq> TabInputText (getUri exampleEnv fileA False) \<and>
   fst (closeFileIfOpen exampleEnv fileA editorWorld) = ClosePromise True \<and>
   deleteResource exampleEnv fileA emptyWorld =
     (True, \<lparr>tabGroups = [], log = [ModelDelete fileA True, Refresh]\<rparr>) \<and>
   recycleResource exampleEnv fileA emptyWorld =
     (True, \<lparr>tabGroups = [],
             log = [ModelMoveTo fileA ''/folders/bin'' True, Refresh,
                    DidChange \<lparr>path = [''sasReadOnly'', ''a.sas''], query = ''id=/files/a''\<rparr>]\<rparr>) \<and>
   restoreResource exampleEnv restorableFile emptyWorld =
     (True, \<lparr>tabGroups = [],
             log = [ModelMoveTo restorableFile ''/folders/home'' True, Refresh]\<rparr>)"
proof -
  have r: "getLink exampleEnv (links restorableFile) ''GET'' ''previousParent'' =
      Some \<lparr>linkMethod = ''GET'', rel = ''previousParent'', linkUri = ''/folders/home''\<rparr>"
    by (simp add: exampleEnv_def restorableFile_def trashedFileA_def fileA_def mkItem_def)
  have b: "getLink exampleEnv (links recycleBinItem) ''GET'' ''self'' =
      Some \<lparr>linkMethod = ''GET'', rel = ''self'', linkUri = ''/folders/bin''\<rparr>"
    by (simp add: exampleEnv_def recycleBinItem_def mkItem_def)
  have g: "model_getDelegateFolder exampleEnv emptyWorld ''@myRecycleBin'' = Some recycleBinItem"
    by (simp add: exampleEnv_def)
  show ?thesis
    using closeFileIfOpen_compares_query [of exampleEnv fileA emptyWorld "''b.sas''"]
      closeFileIfOpen_compares_query [of exampleEnv fileA editorWorld "''b.sas''"]
      closeFileIfOpen_compares_query [of exampleEnv restorableFile emptyWorld "''b.sas''"]
      r b g
    by (simp add: closeFileIfOpen_def exampleEnv_def emptyWorld_def editorWorld_def tabA_def
        fileA_def mkItem_def Let_def)
qed

section \<open>Renaming an item that is open in the editor\<close>

text \<open>
  C4. When a tab matches the item, the first thing \<^verbatim>\<open>renameResource\<close> does is to ask for
  the tab to be closed. If the user declines, it returns \<^verbatim>\<open>undefined\<close>, the model is
  not called and the tab is still there. If the tab is closed and the model renames the item,
  the new Uri is opened after the rename. When no tab matches, the model is called and nothing
  is opened.
\<close>

theorem renameResource_close_before_rename:
  "(\<forall>t. find (tabMatches (getUri en item (isItemInRecycleBin en item))) (concat (tabGroups w)) = Some t
      \<longrightarrow>
      take 1 (newEvents w (snd (renameResource en item nm w))) =
        [TabClose t (tabGroups_close en w t)] \<and>
      (\<not> tabGroups_close en w t \<longrightarrow>
         renameResource en item nm w = (None, w\<lparr>log := log w @ [TabClose t False]\<rparr>) \<and>
         t \<in> set (concat (tabGroups (snd (renameResource en item nm w))))) \<and>
      (\<forall>w1 newItem.
         tabGroups_close en w t \<and>
         w1 = w\<lparr>tabGroups := removeTab t (tabGroups w), log := log w @ [TabClose t True]\<rparr> \<and>
         model_renameResource en w1 item nm = Some newItem \<longrightarrow>
         renameResource en item nm w =
           (Some (getUri en newItem False),
            w1\<lparr>log := log w1 @ [ModelRenameResource item nm (Some newItem),
                                  VscodeOpen (getUri en newItem False)]\<rparr>))) \<and>
   (find (tabMatches (getUri en item (isItemInRecycleBin en item))) (concat (tabGroups w)) = None
      \<longrightarrow>
      renameResource en item nm w =
        (map_option (\<lambda>newItem. getUri en newItem False) (model_renameResource en w item nm),
         w\<lparr>log := log w @ [ModelRenameResource item nm (model_renameResource en w item nm)]\<rparr>))"
proof -
  have open_tab:
    "take 1 (newEvents w (snd (renameResource en item nm w))) =
        [TabClose t (tabGroups_close en w t)] \<and>
      (\<not> tabGroups_close en w t \<longrightarrow>
         renameResource en item nm w = (None, w\<lparr>log := log w @ [TabClose t False]\<rparr>) \<and>
         t \<in> set (concat (tabGroups (snd (renameResource en item nm w))))) \<and>
      (\<forall>w1 newItem.
         tabGroups_close en w t \<and>
         w1 = w\<lparr>tabGroups := removeTab t (tabGroups w), log := log w @ [TabClose t True]\<rparr> \<and>
         model_renameResource en w1 item nm = Some newItem \<longrightarrow>
         renameResource en item nm w =
           (Some (getUri en newItem False),
            w1\<lparr>log := log w1 @ [ModelRenameResource item nm (Some newItem),
                                  VscodeOpen (getUri en newItem False)]\<rparr>))"
    if f: "find (tabMatches (getUri en item (isItemInRecycleBin en item))) (concat (tabGroups w))
           = Some t"
    for t
  proof -
    from f have mem: "t \<in> set (concat (tabGroups w))"
      by (metis find_Some_iff nth_mem)
    show ?thesis
    proof (cases "tabGroups_close en w t")
      case True
      then show ?thesis
        by (auto simp add: renameResource_def closeFileIfOpen_tab [OF f] Let_def emit_def
            split: option.splits)
    next
      case False
      then show ?thesis using mem
        by (simp add: renameResource_def closeFileIfOpen_tab [OF f] Let_def emit_def)
    qed
  qed
  have no_tab: "renameResource en item nm w =
        (map_option (\<lambda>newItem. getUri en newItem False) (model_renameResource en w item nm),
         w\<lparr>log := log w @ [ModelRenameResource item nm (model_renameResource en w item nm)]\<rparr>)"
    if "find (tabMatches (getUri en item (isItemInRecycleBin en item))) (concat (tabGroups w))
        = None"
    using that
    by (simp add: renameResource_def closeFileIfOpen_no_tab Let_def emit_def split: option.splits)
  show ?thesis using open_tab no_tab by blast
qed

text \<open>
  The file open in \<^const>\<open>editorWorld\<close>: a user who declines leaves the world as it was but
  for the request in the log; one who accepts gets the tab closed, the rename, and the new Uri
  opened. Without an editor the rename is all that happens.
\<close>

theorem renameResource_close_before_rename_witness:
  "renameResource (exampleEnv\<lparr>tabGroups_close := (\<lambda>w t. False)\<rparr>) fileA ''b.sas'' editorWorld =
     (None, \<lparr>tabGroups = [[tabA]], log = [TabClose tabA False]\<rparr>) \<and>
   renameResource exampleEnv fileA ''b.sas'' editorWorld =
     (Some \<lparr>path = [''sas'', ''b.sas''], query = ''id=/files/a''\<rparr>,
      \<lparr>tabGroups = [[]],
       log = [TabClose tabA True,
              ModelRenameResource fileA ''b.sas'' (Some (fileA\<lparr>name := ''b.sas''\<rparr>)),
              VscodeOpen \<lparr>path = [''sas'', ''b.sas''], query = ''id=/files/a''\<rparr>]\<rparr>) \<and>
   renameResource exampleEnv fileA ''b.sas'' emptyWorld =
     (Some \<lparr>path = [''sas'', ''b.sas''], query = ''id=/files/a''\<rparr>,
      \<lparr>tabGroups = [],
       log = [ModelRenameResource fileA ''b.sas'' (Some (fileA\<lparr>name := ''b.sas''\<rparr>))]\<rparr>)"
  using renameResource_close_before_rename
      [of "exampleEnv\<lparr>tabGroups_close := (\<lambda>w t. False)\<rparr>" fileA editorWorld "''b.sas''"]
    renameResource_close_before_rename [of exampleEnv fileA editorWorld "''b.sas''"]
    renameResource_close_before_rename [of exampleEnv fileA emptyWorld "''b.sas''"]
  by (simp add: exampleEnv_def emptyWorld_def editorWorld_def tabA_def fileA_def mkItem_def)

section \<open>Recycling\<close>

text \<open>
  C8. \<^verbatim>\<open>recycleResource\<close> asks the model for the folder \<^verbatim>\<open>@myRecycleBin\<close>. Without one
  it is \<^verbatim>\<open>deleteResource\<close>. With one whose \<^verbatim>\<open>self\<close> link has no Uri it returns false
  and does nothing. Otherwise, once the editor of the item is out of the way, it moves the item
  to that Uri, and a move that succeeds is followed by a refresh and by the notice that the
  content at the read-only Uri of the item, as it was before the move, has changed.
\<close>

theorem recycleResource_behaviour:
  "(model_getDelegateFolder en w ''@myRecycleBin'' = None \<longrightarrow>
      recycleResource en item w = deleteResource en item w) \<and>
   (\<forall>recycleBin. model_getDelegateFolder en w ''@myRecycleBin'' = Some recycleBin \<and>
      \<not> truthy (map_option linkUri (getLink en (links recycleBin) ''GET'' ''self'')) \<longrightarrow>
      recycleResource en item w = (False, w)) \<and>
   (\<forall>recycleBin l w1. model_getDelegateFolder en w ''@myRecycleBin'' = Some recycleBin \<and>
      getLink en (links recycleBin) ''GET'' ''self'' = Some l \<and> linkUri l \<noteq> [] \<and>
      w1 = snd (closeFileIfOpen en item w) \<and> awaitClosing (fst (closeFileIfOpen en item w)) \<and>
      model_moveTo en w1 item (linkUri l) \<longrightarrow>
      recycleResource en item w =
        (True, w1\<lparr>log := log w1 @ [ModelMoveTo item (linkUri l) True, Refresh,
                                     DidChange (getUri en item True)]\<rparr>))"
  by (auto simp add: recycleResource_def Let_def emit_def refresh_def split: prod.splits)

text \<open>
  In the example store the file goes to the bin. A store without a bin deletes it, and a bin
  without links leaves it alone.
\<close>

theorem recycleResource_behaviour_witness:
  "recycleResource exampleEnv fileA emptyWorld =
     (True, \<lparr>tabGroups = [],
             log = [ModelMoveTo fileA ''/folders/bin'' True, Refresh,
                    DidChange \<lparr>path = [''sasReadOnly'', ''a.sas''], query = ''id=/files/a''\<rparr>]\<rparr>) \<and>
   recycleResource (exampleEnv\<lparr>model_getDelegateFolder := (\<lambda>w n. None)\<rparr>) fileA emptyWorld =
     (True, \<lparr>tabGroups = [], log = [ModelDelete fileA True, Refresh]\<rparr>) \<and>
   recycleResource
     (exampleEnv\<lparr>model_getDelegateFolder := (\<lambda>w n. Some (recycleBinItem\<lparr>links := []\<rparr>))\<rparr>)
     fileA emptyWorld = (False, emptyWorld)"
  using recycleResource_behaviour [of exampleEnv emptyWorld fileA]
    recycleResource_behaviour
      [of "exampleEnv\<lparr>model_getDelegateFolder := (\<lambda>w n. None)\<rparr>" emptyWorld fileA]
    recycleResource_behaviour
      [of "exampleEnv\<lparr>model_getDelegateFolder := (\<lambda>w n. Some (recycleBinItem\<lparr>links := []\<rparr>))\<rparr>"
        emptyWorld fileA]
  by (simp add: exampleEnv_def emptyWorld_def fileA_def mkItem_def recycleBinItem_def
      deleteResource_def closeFileIfOpen_def Let_def emit_def refresh_def)

section \<open>Dropping an item of the tree\<close>

text \<open>
  C3. \<^verbatim>\<open>handleContentItemDrop\<close> decides in this order. An item in the recycle bin is
  refused with \<^verbatim>\<open>FileDragFromTrashError\<close> whatever the target is. Otherwise a reference
  is refused with \<^verbatim>\<open>FileDragFromFavorites\<close>. Otherwise a target of the trash folder type
  recycles the item, otherwise a target of the favorites folder type adds it to the favorites.
  Otherwise the item is moved to the resource id of the target when the target has one; when
  it has none, the model is not called and the drop fails with \<^verbatim>\<open>FileDropError\<close>.
\<close>

theorem handleContentItemDrop_precedence:
  "(isInRecycleBin item \<longrightarrow>
      handleContentItemDrop en target item w =
        emit (ShowErrorMessage FileDragFromTrashError (Some (name item))) w) \<and>
   (\<not> isInRecycleBin item \<and> isReference en item \<longrightarrow>
      handleContentItemDrop en target item w =
        emit (ShowErrorMessage FileDragFromFavorites (Some (name item))) w) \<and>
   (\<not> isInRecycleBin item \<and> \<not> isReference en item \<and> itemType target = TRASH_FOLDER_TYPE en \<longrightarrow>
      handleContentItemDrop en target item w =
        (case recycleResource en item w of
           (success, w1) \<Rightarrow>
             if success then w1 else emit (ShowErrorMessage FileDropError (Some (name item))) w1)) \<and>
   (\<not> isInRecycleBin item \<and> \<not> isReference en item \<and> itemType target \<noteq> TRASH_FOLDER_TYPE en \<and>
    itemType target = FAVORITES_FOLDER_TYPE en \<longrightarrow>
      handleContentItemDrop en target item w =
        (case addToMyFavorites en item w of
           (success, w1) \<Rightarrow>
             if success then w1 else emit (ShowErrorMessage FileDropError (Some (name item))) w1)) \<and>
   (\<forall>targetUri.
      \<not> isInRecycleBin item \<and> \<not> isReference en item \<and> itemType target \<noteq> TRASH_FOLDER_TYPE en \<and>
      itemType target \<noteq> FAVORITES_FOLDER_TYPE en \<and>
      getResourceIdFromItem en target = Some targetUri \<and> targetUri \<noteq> [] \<longrightarrow>
      newEvents w (handleContentItemDrop en target item w) =
        ModelMoveTo item targetUri (model_moveTo en w item targetUri) #
        (if model_moveTo en w item targetUri then [Refresh]
         else [ShowErrorMessage FileDropError (Some (name item))])) \<and>
   (\<not> isInRecycleBin item \<and> \<not> isReference en item \<and> itemType target \<noteq> TRASH_FOLDER_TYPE en \<and>
    itemType target \<noteq> FAVORITES_FOLDER_TYPE en \<and> \<not> truthy (getResourceIdFromItem en target) \<longrightarrow>
      handleContentItemDrop en target item w =
        emit (ShowErrorMessage FileDropError (Some (name item))) w)"
  by (auto simp add: handleContentItemDrop_def Let_def split: prod.splits)

text \<open>
  A file of the recycle bin dropped on the favorites folder is refused as coming from the
  bin; a file dropped on an ordinary folder is moved there.
\<close>

theorem handleContentItemDrop_precedence_witness:
  "handleContentItemDrop exampleEnv favoritesFolder trashedFileA emptyWorld =
     \<lparr>tabGroups = [], log = [ShowErrorMessage FileDragFromTrashError (Some ''a.sas'')]\<rparr> \<and>
   handleContentItemDrop exampleEnv favoritesFolder fileA emptyWorld =
     \<lparr>tabGroups = [], log = [ModelAddFavorite fileA True, Refresh]\<rparr> \<and>
   newEvents emptyWorld (handleContentItemDrop exampleEnv homeFolder fileA emptyWorld) =
     [ModelMoveTo fileA ''/folders/home'' True, Refresh]"
  using handleContentItemDrop_precedence [of trashedFileA exampleEnv favoritesFolder emptyWorld]
    handleContentItemDrop_precedence [of fileA exampleEnv favoritesFolder emptyWorld]
    handleContentItemDrop_precedence [of fileA exampleEnv homeFolder emptyWorld]
  by (simp add: exampleEnv_def emptyWorld_def fileA_def trashedFileA_def favoritesFolder_def
      homeFolder_def mkItem_def addToMyFavorites_def Let_def emit_def refresh_def)

text \<open>
  Without the condition on the target the last case does not hold: a file dropped on a folder
  without a resource id is not moved, and the model is never called.
\<close>

theorem handleContentItemDrop_no_move_counterexample:
  "\<not> isInRecycleBin fileA \<and> \<not> isReference exampleEnv fileA \<and>
   itemType unaddressedFolder \<noteq> TRASH_FOLDER_TYPE exampleEnv \<and>
   itemType unaddressedFolder \<noteq> FAVORITES_FOLDER_TYPE exampleEnv \<and>
   newEvents emptyWorld (handleContentItemDrop exampleEnv unaddressedFolder fileA emptyWorld) =
     [ShowErrorMessage FileDropError (Some ''a.sas'')]"
  by (simp add: handleContentItemDrop_def exampleEnv_def emptyWorld_def fileA_def
      unaddressedFolder_def mkItem_def Let_def)

section \<open>Export of a selection\<close>

lemma placed_append:
  "placed en D (a @ b) =
     (placed en D a \<and> placed en (D \<union> {u. FsCreateDirectory u \<in> set a}) b)"
proof (induction a arbitrary: D)
  case Nil
  show ?case by simp
next
  case (Cons e a)
  have eq: "insert u (D \<union> {v. FsCreateDirectory v \<in> set a}) =
      D \<union> {v. v = u \<or> FsCreateDirectory v \<in> set a}" for u
    by auto
  show ?case by (cases e) (simp_all add: Cons.IH eq)
qed

lemma placed_mono: "placed en D es \<Longrightarrow> D \<subseteq> D' \<Longrightarrow> placed en D' es"
proof (induction es arbitrary: D D')
  case Nil
  show ?case by simp
next
  case (Cons e es)
  show ?case
  proof (cases e)
    case (FsCreateDirectory u)
    have "insert u D \<subseteq> insert u D'" using Cons.prems(2) by auto
    then show ?thesis
      using Cons.prems Cons.IH [of "insert u D" "insert u D'"] FsCreateDirectory by auto
  next
    case (FsWriteFile u c)
    then show ?thesis using Cons.prems Cons.IH [of D D'] by auto
  qed (use Cons.prems Cons.IH [of D D'] in simp_all)
qed

lemma placed_split:
  "placed en D es \<Longrightarrow> es = before @ e # after \<Longrightarrow> fsTarget e = Some u \<Longrightarrow>
   \<exists>d n. u = joinPath en d n \<and> (d \<in> D \<or> FsCreateDirectory d \<in> set before)"
proof -
  assume p: "placed en D es" and s: "es = before @ e # after" and t: "fsTarget e = Some u"
  from p s have "placed en (D \<union> {v. FsCreateDirectory v \<in> set before}) (e # after)"
    by (simp add: placed_append)
  with t show ?thesis by (cases e) auto
qed

lemma childrenSelections_log:
  "log (snd (childrenSelections en selection alls w)) = log w \<or>
   log (snd (childrenSelections en selection alls w)) = log w @ [ModelGetChildren (Some selection)]"
  by (simp add: childrenSelections_def Let_def)

lemma downloadContentItems_placed:
  "downloadContentItems fuel en folderUri sels alls w = Some w' \<Longrightarrow>
   \<exists>es. log w' = log w @ es \<and> (\<forall>D. folderUri \<in> D \<longrightarrow> placed en D es)"
proof (induction fuel en folderUri sels alls w arbitrary: w' rule: downloadContentItems.induct)
  case (1 fuel en folderUri allSelections w)
  then show ?case by simp
next
  case (2 fuel en folderUri selection rest allSelections w)
  show ?case
  proof (cases "isContainer en selection")
    case False
    let ?e = "FsWriteFile (joinPath en folderUri (name selection))
                   (model_getContentByUri en w (getUri en selection False))"
    from "2.prems" False
    have "downloadContentItems fuel en folderUri rest allSelections (emit ?e w) = Some w'"
      by simp
    from "2.IH"(3) [OF False this] obtain e2 where
      e2: "log w' = log (emit ?e w) @ e2" and o2: "\<forall>D. folderUri \<in> D \<longrightarrow> placed en D e2"
      by blast
    have "log w' = log w @ (?e # e2)" using e2 by simp
    moreover have "\<forall>D. folderUri \<in> D \<longrightarrow> placed en D (?e # e2)"
      using o2 by auto
    ultimately show ?thesis by blast
  next
    case True
    from "2.prems" True obtain k where k: "fuel = Suc k"
      by (cases fuel) simp_all
    let ?new = "joinPath en folderUri (name selection)"
    obtain sel w1 where cs: "childrenSelections en selection allSelections w = (sel, w1)"
      by (cases "childrenSelections en selection allSelections w")
    let ?w1' = "emit (FsCreateDirectory ?new) w1"
    from "2.prems" True k cs obtain w2 where
      d1: "downloadContentItems k en ?new sel allSelections ?w1' = Some w2"
      and d2: "downloadContentItems fuel en folderUri rest allSelections w2 = Some w'"
      by (auto simp add: Let_def split: option.splits)
    from childrenSelections_log [of en selection allSelections w] cs
    obtain e0 where e0: "log w1 = log w @ e0" and c0: "{u. FsCreateDirectory u \<in> set e0} = {}"
      and o0: "\<forall>D. placed en D e0"
      by auto
    from "2.IH"(1) [OF True k refl cs [symmetric] d1] obtain e1 where
      e1: "log w2 = log ?w1' @ e1" and o1: "\<forall>D. ?new \<in> D \<longrightarrow> placed en D e1"
      by blast
    from "2.IH"(2) [OF True k refl cs [symmetric] d1 d2] obtain e2 where
      e2: "log w' = log w2 @ e2" and o2: "\<forall>D. folderUri \<in> D \<longrightarrow> placed en D e2"
      by blast
    let ?es = "e0 @ FsCreateDirectory ?new # e1 @ e2"
    have l: "log w' = log w @ ?es" using e0 e1 e2 by simp
    have "placed en D ?es" if m: "folderUri \<in> D" for D
    proof -
      have a: "placed en (insert ?new D) e1" using o1 by simp
      have b: "placed en (insert ?new D \<union> {u. FsCreateDirectory u \<in> set e1}) e2"
        using o2 m by simp
      have c: "\<exists>d n. d \<in> D \<and> ?new = joinPath en d n" using m by blast
      show ?thesis using o0 c0 a b c
        by (simp add: placed_append)
    qed
    with l show ?thesis by blast
  qed
qed

text \<open>More depth allowed does not change the outcome of an export that ends.\<close>

lemma downloadContentItems_more_fuel:
  "downloadContentItems fuel en folderUri sels alls w = Some w' \<Longrightarrow>
   downloadContentItems (Suc fuel) en folderUri sels alls w = Some w'"
proof (induction fuel en folderUri sels alls w arbitrary: w' rule: downloadContentItems.induct)
  case (1 fuel en folderUri allSelections w)
  then show ?case by simp
next
  case (2 fuel en folderUri selection rest allSelections w)
  show ?case
  proof (cases "isContainer en selection")
    case False
    then show ?thesis using "2.prems" "2.IH"(3) by simp
  next
    case True
    from "2.prems" True obtain k where k: "fuel = Suc k"
      by (cases fuel) simp_all
    obtain sel w1 where cs: "childrenSelections en selection allSelections w = (sel, w1)"
      by (cases "childrenSelections en selection allSelections w")
    let ?new = "joinPath en folderUri (name selection)"
    let ?w1' = "emit (FsCreateDirectory ?new) w1"
    from "2.prems" True k cs obtain w2 where
      d1: "downloadContentItems k en ?new sel allSelections ?w1' = Some w2"
      and d2: "downloadContentItems fuel en folderUri rest allSelections w2 = Some w'"
      by (auto simp add: Let_def split: option.splits)
    have a: "downloadContentItems fuel en ?new sel allSelections ?w1' = Some w2"
      using "2.IH"(1) [OF True k refl cs [symmetric] d1] k by simp
    have b: "downloadContentItems (Suc fuel) en folderUri rest allSelections w2 = Some w'"
      by (rule "2.IH"(2) [OF True k refl cs [symmetric] d1 d2])
    show ?thesis using True cs a b by (simp add: Let_def)
  qed
qed

lemma childrenSelections_found:
  "fst (childrenSelections en selection alls w) =
     (if filter (\<lambda>s. parentFolderUri s = uri selection) alls \<noteq> []
      then filter (\<lambda>s. parentFolderUri s = uri selection) alls
      else model_getChildren en w (Some selection)) \<and>
   (filter (\<lambda>s. parentFolderUri s = uri selection) alls \<noteq> [] \<longrightarrow>
      snd (childrenSelections en selection alls w) = w) \<and>
   (filter (\<lambda>s. parentFolderUri s = uri selection) alls = [] \<longrightarrow>
      snd (childrenSelections en selection alls w) = emit (ModelGetChildren (Some selection)) w)"
  by (simp add: childrenSelections_def Let_def)

lemma download_selected_children:
  assumes "isContainer en a" "\<not> isContainer en x" "\<not> isContainer en y"
    "parentFolderUri a \<noteq> uri a" "parentFolderUri x = uri a" "parentFolderUri y = uri a"
  shows "\<exists>c1 c2. downloadContentItems (Suc fuel) en folderUri [a] [a, x, y] w =
     Some (w\<lparr>log := log w @
        [FsCreateDirectory (joinPath en folderUri (name a)),
         FsWriteFile (joinPath en (joinPath en folderUri (name a)) (name x)) c1,
         FsWriteFile (joinPath en (joinPath en folderUri (name a)) (name y)) c2]\<rparr>)"
  using assms by (simp add: childrenSelections_def Let_def emit_def) blast

text \<open>
  C5. The children that an export takes for a container are the selected items whose parent
  is the container when there are any, and then the model is not asked; otherwise they are
  what the model answers to a request that is in the log. Every container that an export
  comes to, at whatever depth, is exported in this way: its directory is created and the
  export goes on inside it with these children and the same selection; every other item is
  written as a file. An export that ends has created every directory before it puts anything
  into it. And with a folder and two files of it selected, the export of the folder creates
  the directory of the folder and writes the two files there, without asking the model for
  the children.
\<close>

theorem export_effective_children:
  "fst (childrenSelections en selection allSelections w) =
     (if filter (\<lambda>s. parentFolderUri s = uri selection) allSelections \<noteq> []
      then filter (\<lambda>s. parentFolderUri s = uri selection) allSelections
      else model_getChildren en w (Some selection)) \<and>
   (filter (\<lambda>s. parentFolderUri s = uri selection) allSelections \<noteq> [] \<longrightarrow>
      snd (childrenSelections en selection allSelections w) = w) \<and>
   (filter (\<lambda>s. parentFolderUri s = uri selection) allSelections = [] \<longrightarrow>
      snd (childrenSelections en selection allSelections w) =
        emit (ModelGetChildren (Some selection)) w) \<and>
   (isContainer en selection \<longrightarrow>
      downloadContentItems (Suc fuel) en folderUri (selection # rest) allSelections w =
        (case childrenSelections en selection allSelections w of
           (children, w1) \<Rightarrow>
             (case downloadContentItems fuel en (joinPath en folderUri (name selection)) children
                     allSelections
                     (emit (FsCreateDirectory (joinPath en folderUri (name selection))) w1) of
                None \<Rightarrow> None
              | Some w2 \<Rightarrow>
                  downloadContentItems (Suc fuel) en folderUri rest allSelections w2))) \<and>
   (\<not> isContainer en selection \<longrightarrow>
      downloadContentItems fuel en folderUri (selection # rest) allSelections w =
        downloadContentItems fuel en folderUri rest allSelections
          (emit (FsWriteFile (joinPath en folderUri (name selection))
                   (model_getContentByUri en w (getUri en selection False))) w)) \<and>
   (\<forall>w'. downloadContentItems fuel en folderUri selections allSelections w = Some w' \<longrightarrow>
      log w' = log w @ newEvents w w' \<and>
      (\<forall>before e after u.
         newEvents w w' = before @ e # after \<and> fsTarget e = Some u \<longrightarrow>
         (\<exists>d n. u = joinPath en d n \<and> (d = folderUri \<or> FsCreateDirectory d \<in> set before)))) \<and>
   (\<forall>a x y. isContainer en a \<and> \<not> isContainer en x \<and> \<not> isContainer en y \<and>
      parentFolderUri a \<noteq> uri a \<and> parentFolderUri x = uri a \<and> parentFolderUri y = uri a \<longrightarrow>
      (\<exists>c1 c2. downloadContentItems (Suc fuel) en folderUri [a] [a, x, y] w =
         Some (w\<lparr>log := log w @
            [FsCreateDirectory (joinPath en folderUri (name a)),
             FsWriteFile (joinPath en (joinPath en folderUri (name a)) (name x)) c1,
             FsWriteFile (joinPath en (joinPath en folderUri (name a)) (name y)) c2]\<rparr>)))"
proof -
  have cont: "downloadContentItems (Suc fuel) en folderUri (selection # rest) allSelections w =
        (case childrenSelections en selection allSelections w of
           (children, w1) \<Rightarrow>
             (case downloadContentItems fuel en (joinPath en folderUri (name selection)) children
                     allSelections
                     (emit (FsCreateDirectory (joinPath en folderUri (name selection))) w1) of
                None \<Rightarrow> None
              | Some w2 \<Rightarrow>
                  downloadContentItems (Suc fuel) en folderUri rest allSelections w2))"
    if "isContainer en selection"
    using that by (simp add: Let_def)
  have leaf: "downloadContentItems fuel en folderUri (selection # rest) allSelections w =
        downloadContentItems fuel en folderUri rest allSelections
          (emit (FsWriteFile (joinPath en folderUri (name selection))
                   (model_getContentByUri en w (getUri en selection False))) w)"
    if "\<not> isContainer en selection"
    using that by simp
  have order: "log w' = log w @ newEvents w w' \<and>
      (\<forall>before e after u.
         newEvents w w' = before @ e # after \<and> fsTarget e = Some u \<longrightarrow>
         (\<exists>d n. u = joinPath en d n \<and> (d = folderUri \<or> FsCreateDirectory d \<in> set before)))"
    if "downloadContentItems fuel en folderUri selections allSelections w = Some w'" for w'
  proof -
    from downloadContentItems_placed [OF that] obtain es where
      es: "log w' = log w @ es" and o: "placed en {folderUri} es"
      by blast
    from es have n: "newEvents w w' = es" by (rule newEvents_append)
    have "\<exists>d n. u = joinPath en d n \<and> (d = folderUri \<or> FsCreateDirectory d \<in> set before)"
      if "es = before @ e # after" "fsTarget e = Some u" for before e after u
      using placed_split [OF o that] by auto
    then show ?thesis using es n by auto
  qed
  show ?thesis
    using childrenSelections_found [of en selection allSelections w] cont leaf order
      download_selected_children [of en _ _ _ fuel folderUri w]
    by blast
qed

text \<open>
  The folder \<^const>\<open>folderA\<close> exported with the folder \<^const>\<open>folderB\<close> inside it and the
  files of both selected: the children of both folders are taken from the selection, and the
  file of the inner folder is put into the directory created for it just before. With the
  folder alone selected the model is asked for its children.
\<close>

theorem export_effective_children_witness:
  "downloadContentItems (Suc (Suc 0)) exampleEnv destination [folderA]
     [folderA, folderB, fileBz, fileAx] emptyWorld =
     Some \<lparr>tabGroups = [],
           log = [FsCreateDirectory \<lparr>path = [''tmp'', ''export'', ''A''], query = []\<rparr>,
                  FsCreateDirectory \<lparr>path = [''tmp'', ''export'', ''A'', ''B''], query = []\<rparr>,
                  FsWriteFile \<lparr>path = [''tmp'', ''export'', ''A'', ''B'', ''z''], query = []\<rparr>
                    ''id=/files/z'',
                  FsWriteFile \<lparr>path = [''tmp'', ''export'', ''A'', ''x''], query = []\<rparr>
                    ''id=/files/x'']\<rparr> \<and>
   (\<exists>d n. \<lparr>path = [''tmp'', ''export'', ''A'', ''B'', ''z''], query = []\<rparr> =
            joinPath exampleEnv d n \<and>
          (d = destination \<or>
           FsCreateDirectory d \<in>
             set [FsCreateDirectory \<lparr>path = [''tmp'', ''export'', ''A''], query = []\<rparr>,
                  FsCreateDirectory \<lparr>path = [''tmp'', ''export'', ''A'', ''B''], query = []\<rparr>])) \<and>
   childrenSelections (exampleEnv\<lparr>model_getChildren := (\<lambda>w parent. [fileAx, fileAy])\<rparr>)
     folderA [folderA] emptyWorld =
     ([fileAx, fileAy], \<lparr>tabGroups = [], log = [ModelGetChildren (Some folderA)]\<rparr>)"
proof -
  let ?mkA = "FsCreateDirectory \<lparr>path = [''tmp'', ''export'', ''A''], query = []\<rparr>"
  let ?mkB = "FsCreateDirectory \<lparr>path = [''tmp'', ''export'', ''A'', ''B''], query = []\<rparr>"
  let ?wz = "FsWriteFile \<lparr>path = [''tmp'', ''export'', ''A'', ''B'', ''z''], query = []\<rparr>
               ''id=/files/z''"
  let ?wx = "FsWriteFile \<lparr>path = [''tmp'', ''export'', ''A'', ''x''], query = []\<rparr> ''id=/files/x''"
  let ?done = "\<lparr>tabGroups = [], log = [?mkA, ?mkB, ?wz, ?wx]\<rparr>"
  have run: "downloadContentItems (Suc (Suc 0)) exampleEnv destination [folderA]
      [folderA, folderB, fileBz, fileAx] emptyWorld = Some ?done"
    by (simp add: childrenSelections_def exampleEnv_def emptyWorld_def folderA_def folderB_def
        fileBz_def fileAx_def destination_def mkItem_def Let_def emit_def)
  note t = export_effective_children
             [of exampleEnv folderA "[folderA, folderB, fileBz, fileAx]" emptyWorld "Suc (Suc 0)"
               destination "[]" "[folderA]"]
  note order = t [THEN conjunct2, THEN conjunct2, THEN conjunct2, THEN conjunct2, THEN conjunct2,
                  THEN conjunct1, rule_format, OF run]
  have n: "newEvents emptyWorld ?done = [?mkA, ?mkB] @ ?wz # [?wx]"
    by (simp add: newEvents_def emptyWorld_def)
  have f: "fsTarget ?wz = Some \<lparr>path = [''tmp'', ''export'', ''A'', ''B'', ''z''], query = []\<rparr>"
    by simp
  note ord = order [THEN conjunct2, rule_format, OF conjI, OF n f]
  note u = export_effective_children
             [of "exampleEnv\<lparr>model_getChildren := (\<lambda>w parent. [fileAx, fileAy])\<rparr>" folderA
               "[folderA]" emptyWorld "Suc 0" destination "[]" "[folderA]"]
  have fetch: "childrenSelections (exampleEnv\<lparr>model_getChildren := (\<lambda>w parent. [fileAx, fileAy])\<rparr>)
     folderA [folderA] emptyWorld =
     ([fileAx, fileAy], \<lparr>tabGroups = [], log = [ModelGetChildren (Some folderA)]\<rparr>)"
    using u [THEN conjunct1] u [THEN conjunct2, THEN conjunct2, THEN conjunct1]
    by (simp add: prod_eq_iff exampleEnv_def emptyWorld_def folderA_def mkItem_def emit_def)
  show ?thesis using run ord fetch by blast
qed

section \<open>The balance of refreshes of tasks that run together\<close>

lemma refreshCount_simps [simp]:
  "refreshCount [] = 0"
  "refreshCount (a @ b) = refreshCount a + refreshCount b"
  "refreshCount (e # es) = (if e = Refresh then 1 else 0) + refreshCount es"
  by (simp_all add: refreshCount_def)

lemma mutationCount_simps [simp]:
  "mutationCount [] = 0"
  "mutationCount (a @ b) = mutationCount a + mutationCount b"
  "mutationCount (e # es) = (if itemMutationOk e then 1 else 0) + mutationCount es"
  by (simp_all add: mutationCount_def)

lemma netRefresh_simps [simp]:
  "netRefresh [] = 0"
  "netRefresh (a @ b) = netRefresh a + netRefresh b"
  by (simp_all add: netRefresh_def)

lemma netRefresh_Cons:
  "netRefresh (e # es) =
     (if e = Refresh then 1 else 0) - (if itemMutationOk e then 1 else 0) + netRefresh es"
  by (simp add: netRefresh_def)

lemma settles_Step [simp]: "settles g (Step k) b = starts g k b"
proof -
  have "(case map_prod (settles g) id (k w) of
           (rest, w') \<Rightarrow> \<exists>es. log w' = log w @ es \<and> rest (b + netRefresh es)) =
        (case k w of (t, w') \<Rightarrow> \<exists>es. log w' = log w @ es \<and> settles g t (b + netRefresh es))"
    for w
    by (cases "k w") simp
  then show ?thesis by (simp add: starts_def)
qed

declare settles.simps(2) [simp del]

lemma startsI:
  assumes "\<And>w. \<exists>es. log (snd (f w)) = log w @ es \<and> settles g (fst (f w)) (b + netRefresh es)"
  shows "starts g f b"
  unfolding starts_def
proof
  fix w
  show "case f w of (t, w') \<Rightarrow> \<exists>es. log w' = log w @ es \<and> settles g t (b + netRefresh es)"
    using assms [of w] by (cases "f w") simp
qed

lemma startsD:
  assumes "starts g f b" and "f w = (t, w')"
  shows "\<exists>es. log w' = log w @ es \<and> settles g t (b + netRefresh es)"
proof -
  from assms(1) have "case f w of (t, w') \<Rightarrow>
      \<exists>es. log w' = log w @ es \<and> settles g t (b + netRefresh es)"
    unfolding starts_def by (rule spec)
  with assms(2) show ?thesis by simp
qed

lemma settles_shift: "settles g t b \<Longrightarrow> settles (\<lambda>a. g a + c) t (b + c)"
proof (induction t arbitrary: b)
  case (Done a)
  then show ?case by simp
next
  case (Step k)
  show ?case unfolding settles_Step
  proof (rule startsI)
    fix w
    obtain t w' where kw: "k w = (t, w')" by (cases "k w")
    from Step.prems have "starts g k b" by simp
    from startsD [OF this kw] obtain es where
      es: "log w' = log w @ es" and s: "settles g t (b + netRefresh es)"
      by blast
    have "t \<in> Basic_BNFs.fsts (k w)" using kw by simp
    from Step.IH [OF _ this s] have "settles (\<lambda>a. g a + c) t (b + netRefresh es + c)"
      by simp
    then have "settles (\<lambda>a. g a + c) t (b + c + netRefresh es)"
      by (simp add: add.commute add.left_commute)
    with es kw show "\<exists>es. log (snd (k w)) = log w @ es \<and>
        settles (\<lambda>a. g a + c) (fst (k w)) (b + c + netRefresh es)"
      by auto
  qed
qed

lemma settles_run:
  "settles g t b \<Longrightarrow>
   \<exists>es. log (snd (runTask t w)) = log w @ es \<and> b + netRefresh es = g (fst (runTask t w))"
proof (induction t arbitrary: b w)
  case (Done a)
  then show ?case by simp
next
  case (Step k)
  obtain t w' where kw: "k w = (t, w')" by (cases "k w")
  from Step.prems have "starts g k b" by simp
  from startsD [OF this kw] obtain e1 where
    e1: "log w' = log w @ e1" and s: "settles g t (b + netRefresh e1)"
    by blast
  have "t \<in> Basic_BNFs.fsts (k w)" using kw by simp
  from Step.IH [OF _ this s, of w'] obtain e2 where
    e2: "log (snd (runTask t w')) = log w' @ e2"
    and r: "b + netRefresh e1 + netRefresh e2 = g (fst (runTask t w'))"
    by auto
  have "log (snd (runTask (Step k) w)) = log w @ (e1 @ e2)"
    using kw e1 e2 by simp
  moreover have "b + netRefresh (e1 @ e2) = g (fst (runTask (Step k) w))"
    using kw r by simp
  ultimately show ?case by blast
qed

lemma settles_awaitThen:
  "settles g1 t b \<Longrightarrow> (\<And>a. starts g2 (f a) (g1 a)) \<Longrightarrow> settles g2 (awaitThen t f) b"
proof (induction t arbitrary: b)
  case (Done a)
  then show ?case by simp
next
  case (Step k)
  show ?case unfolding awaitThen_Step settles_Step
  proof (rule startsI)
    fix w
    obtain t w' where kw: "k w = (t, w')" by (cases "k w")
    from Step.prems(1) have "starts g1 k b" by simp
    from startsD [OF this kw] obtain es where
      es: "log w' = log w @ es" and s: "settles g1 t (b + netRefresh es)"
      by blast
    have "t \<in> Basic_BNFs.fsts (k w)" using kw by simp
    from Step.IH [OF _ this s Step.prems(2)]
    have "settles g2 (awaitThen t f) (b + netRefresh es)"
      by simp
    with es kw show "\<exists>es. log (snd (case k w of (t, w') \<Rightarrow> (awaitThen t f, w'))) = log w @ es \<and>
        settles g2 (fst (case k w of (t, w') \<Rightarrow> (awaitThen t f, w'))) (b + netRefresh es)"
      by auto
  qed
qed

lemma starts_awaitThen:
  "starts g1 f b \<Longrightarrow> (\<And>a. starts g2 (h a) (g1 a)) \<Longrightarrow>
   starts g2 (\<lambda>w. case f w of (t, w1) \<Rightarrow> (awaitThen t h, w1)) b"
proof (rule startsI)
  fix w
  assume f: "starts g1 f b" and h: "\<And>a. starts g2 (h a) (g1 a)"
  obtain t w1 where fw: "f w = (t, w1)" by (cases "f w")
  from startsD [OF f fw] obtain es where
    es: "log w1 = log w @ es" and s: "settles g1 t (b + netRefresh es)"
    by blast
  from settles_awaitThen [OF s h] have "settles g2 (awaitThen t h) (b + netRefresh es)" .
  with es fw show "\<exists>es. log (snd (case f w of (t, w1) \<Rightarrow> (awaitThen t h, w1))) = log w @ es \<and>
      settles g2 (fst (case f w of (t, w1) \<Rightarrow> (awaitThen t h, w1))) (b + netRefresh es)"
    by auto
qed

lemma balanceOf_simps [simp]:
  "balanceOf g [] = 0"
  "balanceOf g (xs @ ys) = balanceOf g xs + balanceOf g ys"
  "balanceOf g ((i, a) # xs) = g a + balanceOf g xs"
  by (simp_all add: balanceOf_def)

lemma settles_drain:
  "list_all2 (\<lambda>b p. settles g (snd p) b) bs pending \<Longrightarrow>
   settles (balanceOf g) (drain finished pending) (sum_list bs + balanceOf g finished)"
proof (induction pending arbitrary: finished bs)
  case Nil
  then show ?case by simp
next
  case (Cons p pending)
  obtain i t where p: "p = (i, t)" by (cases p)
  from Cons.prems obtain b bs' where bs: "bs = b # bs'" and t: "settles g t b"
    and rest: "list_all2 (\<lambda>b p. settles g (snd p) b) bs' pending"
    using p by (auto simp add: list_all2_Cons2)
  let ?c = "sum_list bs' + balanceOf g finished"
  have s: "settles (\<lambda>a. g a + ?c) t (b + ?c)"
    by (rule settles_shift [OF t])
  have k: "starts (balanceOf g) (\<lambda>w. (drain (finished @ [(i, a)]) pending, w)) (g a + ?c)" for a
  proof (rule startsI)
    fix w
    have "settles (balanceOf g) (drain (finished @ [(i, a)]) pending)
        (sum_list bs' + balanceOf g (finished @ [(i, a)]))"
      by (rule Cons.IH [OF rest])
    then have "settles (balanceOf g) (drain (finished @ [(i, a)]) pending) (g a + ?c)"
      by (simp add: add.commute add.left_commute)
    then show "\<exists>es. log (snd (drain (finished @ [(i, a)]) pending, w)) = log w @ es \<and>
        settles (balanceOf g) (fst (drain (finished @ [(i, a)]) pending, w))
          (g a + ?c + netRefresh es)"
      by (intro exI [of _ "[]"]) simp
  qed
  have "settles (balanceOf g) (awaitThen t (\<lambda>a w. (drain (finished @ [(i, a)]) pending, w)))
      (b + ?c)"
    by (rule settles_awaitThen [OF s k])
  then show ?case using p bs by (simp add: add.assoc)
qed

lemma sum_list_split_nth:
  fixes bs :: "int list"
  shows "j < length bs \<Longrightarrow>
    sum_list bs = sum_list (take j bs) + bs ! j + sum_list (drop (Suc j) bs)"
proof -
  assume "j < length bs"
  then have "bs = take j bs @ bs ! j # drop (Suc j) bs"
    by (rule id_take_nth_drop)
  then have "sum_list bs = sum_list (take j bs @ bs ! j # drop (Suc j) bs)"
    by simp
  then show ?thesis by simp
qed

lemma settles_promiseAllFrom:
  "list_all2 (\<lambda>b p. settles g (snd p) b) bs pending \<Longrightarrow>
   settles (balanceOf g) (promiseAllFrom choices finished pending)
     (sum_list bs + balanceOf g finished)"
proof (induction choices arbitrary: finished pending bs)
  case Nil
  then show ?case by (simp add: settles_drain)
next
  case (Cons c choices)
  show ?case
  proof (cases pending)
    case Nil
    then show ?thesis using Cons.prems by simp
  next
    case (Cons p ps)
    let ?j = "c mod length pending"
    let ?before = "take ?j pending"
    let ?after = "drop (Suc ?j) pending"
    let ?P = "\<lambda>b p. settles g (snd p) b"
    have len: "length bs = length pending"
      using Cons.prems by (rule list_all2_lengthD)
    have j: "?j < length pending" using Cons by simp
    have jb: "?j < length bs" using j len by simp
    have bef: "list_all2 ?P (take ?j bs) ?before"
      using Cons.prems by (rule list_all2_takeI)
    have aft: "list_all2 ?P (drop (Suc ?j) bs) ?after"
      using Cons.prems by (rule list_all2_dropI)
    have nth: "settles g (snd (pending ! ?j)) (bs ! ?j)"
      using list_all2_nthD [OF Cons.prems jb] .
    have total: "sum_list bs = sum_list (take ?j bs) + bs ! ?j + sum_list (drop (Suc ?j) bs)"
      by (rule sum_list_split_nth [OF jb])
    obtain i t where pj: "pending ! ?j = (i, t)" by (cases "pending ! ?j")
    let ?k = "\<lambda>w. (let j = c mod length pending;
                 before = take j pending;
                 after = drop (Suc j) pending
             in case pending ! j of
                  (i, Done a) \<Rightarrow> (promiseAllFrom choices (finished @ [(i, a)]) (before @ after), w)
                | (i, Step k) \<Rightarrow>
                    (case k w of
                       (Done a, w1) \<Rightarrow>
                         (promiseAllFrom choices (finished @ [(i, a)]) (before @ after), w1)
                     | (Step k1, w1) \<Rightarrow>
                         (promiseAllFrom choices finished (before @ (i, Step k1) # after), w1)))"
    have removed: "settles (balanceOf g)
        (promiseAllFrom choices (finished @ [(i, a)]) (?before @ ?after))
        (sum_list bs + balanceOf g finished + d)"
      if "bs ! ?j + d = g a" for a d
    proof -
      have "list_all2 ?P (take ?j bs @ drop (Suc ?j) bs) (?before @ ?after)"
        using bef aft by (rule list_all2_appendI)
      from Cons.IH [OF this, of "finished @ [(i, a)]"]
      have "settles (balanceOf g)
          (promiseAllFrom choices (finished @ [(i, a)]) (?before @ ?after))
          (sum_list (take ?j bs @ drop (Suc ?j) bs) + balanceOf g (finished @ [(i, a)]))" .
      then have x: "settles (balanceOf g)
          (promiseAllFrom choices (finished @ [(i, a)]) (?before @ ?after))
          (sum_list (take ?j bs) + sum_list (drop (Suc ?j) bs) + (balanceOf g finished + g a))"
        by simp
      have eq: "sum_list (take ?j bs) + sum_list (drop (Suc ?j) bs) + (balanceOf g finished + g a)
          = sum_list bs + balanceOf g finished + d"
        using total that by linarith
      show ?thesis using x unfolding eq .
    qed
    have "starts (balanceOf g) ?k (sum_list bs + balanceOf g finished)"
    proof (rule startsI)
      fix w
      show "\<exists>es. log (snd (?k w)) = log w @ es \<and>
          settles (balanceOf g) (fst (?k w)) (sum_list bs + balanceOf g finished + netRefresh es)"
      proof (cases t)
        case (Done a)
        with nth pj have "bs ! ?j + 0 = g a" by simp
        from removed [OF this] Done pj show ?thesis
          by (intro exI [of _ "[]"]) (simp add: Let_def)
      next
        case (Step k)
        obtain t1 w1 where kw: "k w = (t1, w1)" by (cases "k w")
        from nth pj Step have "starts g k (bs ! ?j)" by simp
        from startsD [OF this kw] obtain es where
          es: "log w1 = log w @ es" and s: "settles g t1 (bs ! ?j + netRefresh es)"
          by blast
        show ?thesis
        proof (cases t1)
          case (Done a)
          with s have "bs ! ?j + netRefresh es = g a" by simp
          from removed [OF this] Done Step pj kw es show ?thesis
            by (intro exI [of _ es]) (simp add: Let_def)
        next
          case inner: (Step k1)
          have "list_all2 ?P (take ?j bs @ (bs ! ?j + netRefresh es) # drop (Suc ?j) bs)
              (?before @ (i, Step k1) # ?after)"
            using bef aft s inner by (intro list_all2_appendI) simp_all
          from Cons.IH [OF this, of finished]
          have "settles (balanceOf g)
              (promiseAllFrom choices finished (?before @ (i, Step k1) # ?after))
              (sum_list (take ?j bs @ (bs ! ?j + netRefresh es) # drop (Suc ?j) bs) +
               balanceOf g finished)" .
          then have x: "settles (balanceOf g)
              (promiseAllFrom choices finished (?before @ (i, Step k1) # ?after))
              (sum_list (take ?j bs) + (bs ! ?j + netRefresh es) + sum_list (drop (Suc ?j) bs) +
               balanceOf g finished)"
            by (simp add: add.assoc)
          have eq: "sum_list (take ?j bs) + (bs ! ?j + netRefresh es) +
               sum_list (drop (Suc ?j) bs) + balanceOf g finished
               = sum_list bs + balanceOf g finished + netRefresh es"
            using total by linarith
          have "settles (balanceOf g)
              (promiseAllFrom choices finished (?before @ (i, Step k1) # ?after))
              (sum_list bs + balanceOf g finished + netRefresh es)"
            using x unfolding eq .
          then show ?thesis using inner Step pj kw es
            by (intro exI [of _ es]) (simp add: Let_def)
        qed
      qed
    qed
    then show ?thesis using Cons by simp
  qed
qed

lemma settle_balance:
  "list_all2 (\<lambda>b p. settles g (snd p) b) bs its \<Longrightarrow> settle its = (finished, pending) \<Longrightarrow>
   \<exists>bs'. list_all2 (\<lambda>b p. settles g (snd p) b) bs' pending \<and>
     sum_list bs' + balanceOf g finished = sum_list bs"
proof (induction its arbitrary: bs finished pending rule: settle.induct)
  case 1
  then show ?case by simp
next
  case (2 i a ts)
  obtain f1 p1 where st: "settle ts = (f1, p1)" by (cases "settle ts")
  from "2.prems"(1) obtain b bs1 where bs: "bs = b # bs1" and b: "b = g a"
    and rest: "list_all2 (\<lambda>b p. settles g (snd p) b) bs1 ts"
    by (auto simp add: list_all2_Cons2)
  from "2.IH" [OF rest st] obtain bs' where
    l: "list_all2 (\<lambda>b p. settles g (snd p) b) bs' p1"
    and e: "sum_list bs' + balanceOf g f1 = sum_list bs1"
    by blast
  have fp: "finished = (i, a) # f1" "pending = p1" using "2.prems"(2) st by simp_all
  have "sum_list bs' + balanceOf g ((i, a) # f1) = sum_list bs"
    using e bs b by simp
  with l show ?case unfolding fp by blast
next
  case (3 i k ts)
  obtain f1 p1 where st: "settle ts = (f1, p1)" by (cases "settle ts")
  from "3.prems"(1) obtain b bs1 where bs: "bs = b # bs1" and b: "settles g (Step k) b"
    and rest: "list_all2 (\<lambda>b p. settles g (snd p) b) bs1 ts"
    by (auto simp add: list_all2_Cons2)
  from "3.IH" [OF rest st] obtain bs' where
    l: "list_all2 (\<lambda>b p. settles g (snd p) b) bs' p1"
    and e: "sum_list bs' + balanceOf g f1 = sum_list bs1"
    by blast
  have "list_all2 (\<lambda>b p. settles g (snd p) b) (b # bs') ((i, Step k) # p1)"
    using l b by simp
  moreover have "sum_list (b # bs') + balanceOf g f1 = sum_list bs"
    using e bs by simp
  moreover have fp: "finished = f1" "pending = (i, Step k) # p1"
    using "3.prems"(2) st by simp_all
  ultimately show ?case unfolding fp by blast
qed

lemma settles_promiseAll:
  assumes "list_all2 (\<lambda>b t. settles g t b) bs tasks"
  shows "settles (balanceOf g) (promiseAll choices tasks) (sum_list bs)"
proof -
  have len: "length bs = length tasks" using assms by (rule list_all2_lengthD)
  have z: "list_all2 (\<lambda>b p. settles g (snd p) b) bs (zip [0..<length tasks] tasks)"
    using assms len by (simp add: list_all2_conv_all_nth)
  obtain finished pending where st: "settle (zip [0..<length tasks] tasks) = (finished, pending)"
    by (cases "settle (zip [0..<length tasks] tasks)")
  from settle_balance [OF z st] obtain bs' where
    l: "list_all2 (\<lambda>b p. settles g (snd p) b) bs' pending"
    and e: "sum_list bs' + balanceOf g finished = sum_list bs"
    by blast
  from settles_promiseAllFrom [OF l, of choices finished] e st show ?thesis
    by (simp add: promiseAll_def)
qed

lemma startAll_balance:
  assumes "\<And>x. x \<in> set xs \<Longrightarrow> starts g (f x) 0"
  shows "startAll f xs w = (ts, w') \<Longrightarrow>
    \<exists>es bs. log w' = log w @ es \<and> list_all2 (\<lambda>b t. settles g t b) bs ts \<and>
      sum_list bs = netRefresh es"
  using assms
proof (induction xs arbitrary: w ts w')
  case Nil
  then show ?case by simp
next
  case (Cons x xs)
  obtain t w1 where fx: "f x w = (t, w1)" by (cases "f x w")
  obtain ts1 w2 where sa: "startAll f xs w1 = (ts1, w2)" by (cases "startAll f xs w1")
  have "starts g (f x) 0" by (rule Cons.prems(2)) simp
  from startsD [OF this fx] obtain e1 where
    e1: "log w1 = log w @ e1" and s: "settles g t (0 + netRefresh e1)"
    by blast
  have "\<And>y. y \<in> set xs \<Longrightarrow> starts g (f y) 0" by (rule Cons.prems(2)) simp
  from Cons.IH [OF sa this] obtain e2 bs where
    e2: "log w2 = log w1 @ e2" and l: "list_all2 (\<lambda>b t. settles g t b) bs ts1"
    and b: "sum_list bs = netRefresh e2"
    by blast
  have r: "ts = t # ts1" "w' = w2" using Cons.prems(1) fx sa by simp_all
  have "log w' = log w @ (e1 @ e2)" using r e1 e2 by simp
  moreover have "list_all2 (\<lambda>b t. settles g t b) (netRefresh e1 # bs) ts"
    using r l s by simp
  moreover have "sum_list (netRefresh e1 # bs) = netRefresh (e1 @ e2)"
    using b by simp
  ultimately show ?case by blast
qed

text \<open>
  Tasks started together and awaited together: when all are done, the log has grown, and the
  refreshes it has gained over the mutations are those of the values of the tasks.
\<close>

lemma startAll_promiseAll_run:
  assumes "\<And>x. starts g (f x) 0"
    and "startAll f xs w = (ts, w1)"
    and "runTask (promiseAll choices ts) w1 = (results, w2)"
  shows "\<exists>es. log w2 = log w @ es \<and> netRefresh es = balanceOf g results"
proof -
  from startAll_balance [of xs g f, OF assms(1) assms(2)] obtain e1 bs where
    e1: "log w1 = log w @ e1" and l: "list_all2 (\<lambda>b t. settles g t b) bs ts"
    and b: "sum_list bs = netRefresh e1"
    by blast
  from settles_run [OF settles_promiseAll [OF l], of choices w1] assms(3) obtain e2 where
    e2: "log w2 = log w1 @ e2" and r: "sum_list bs + netRefresh e2 = balanceOf g results"
    by auto
  have "log w2 = log w @ (e1 @ e2)" using e1 e2 by simp
  moreover have "netRefresh (e1 @ e2) = balanceOf g results" using b r by simp
  ultimately show ?thesis by blast
qed

lemma starts_iff:
  "starts g f b =
     (\<forall>w. \<exists>es. log (snd (f w)) = log w @ es \<and> settles g (fst (f w)) (b + netRefresh es))"
proof -
  have "(case f w of (t, w') \<Rightarrow> \<exists>es. log w' = log w @ es \<and> settles g t (b + netRefresh es)) =
      (\<exists>es. log (snd (f w)) = log w @ es \<and> settles g (fst (f w)) (b + netRefresh es))" for w
    by (cases "f w") simp
  then show ?thesis by (simp add: starts_def)
qed

lemma starts_cong: "(\<And>w. f w = f' w) \<Longrightarrow> starts g f' b \<Longrightarrow> starts g f b"
  by (simp add: starts_def)

lemma balanceOf_zero [simp]: "balanceOf (\<lambda>a. 0) results = 0"
  by (simp add: balanceOf_def)

subsection \<open>The methods\<close>

lemma createFileTask_balance: "starts (\<lambda>a. 0) (createFileTask en item n b) 0"
  by (simp add: starts_iff createFileTask_def Let_def netRefresh_Cons split: option.splits)

lemma addToMyFavoritesTask_balance: "starts (\<lambda>a. 0) (addToMyFavoritesTask en item) 0"
  by (simp add: starts_iff addToMyFavoritesTask_def Let_def netRefresh_Cons)

lemma closeFileIfOpen_balance:
  "closeFileIfOpen en item w = (c, w1) \<Longrightarrow> \<exists>es. log w1 = log w @ es \<and> netRefresh es = 0"
  using closeFileIfOpen_cases [of en item w]
  by (auto simp add: netRefresh_Cons)

lemma deleteResourceTask_balance: "starts (\<lambda>a. 0) (deleteResourceTask en item) 0"
proof (rule startsI)
  fix w
  obtain c w1 where cf: "closeFileIfOpen en item w = (c, w1)"
    by (cases "closeFileIfOpen en item w")
  from closeFileIfOpen_balance [OF cf] obtain es where
    es: "log w1 = log w @ es" "netRefresh es = 0"
    by blast
  have "settles (\<lambda>a. 0) (fst (deleteResourceTask en item w)) 0"
    using cf by (simp add: deleteResourceTask_def Let_def starts_iff netRefresh_Cons)
  with es cf show "\<exists>es. log (snd (deleteResourceTask en item w)) = log w @ es \<and>
      settles (\<lambda>a. 0) (fst (deleteResourceTask en item w)) (0 + netRefresh es)"
    by (intro exI [of _ es]) (simp add: deleteResourceTask_def)
qed

lemma recycleResourceTask_balance: "starts (\<lambda>a. 0) (recycleResourceTask en item) 0"
proof (rule startsI)
  fix w
  let ?goal = "\<exists>es. log (snd (recycleResourceTask en item w)) = log w @ es \<and>
      settles (\<lambda>a. 0) (fst (recycleResourceTask en item w)) (0 + netRefresh es)"
  show ?goal
  proof (cases "model_getDelegateFolder en w ''@myRecycleBin''")
    case None
    then have "recycleResourceTask en item w = deleteResourceTask en item w"
      by (simp add: recycleResourceTask_def)
    then show ?thesis
      using deleteResourceTask_balance [of en item] by (simp add: starts_iff)
  next
    case (Some recycleBin)
    let ?u = "map_option linkUri (getLink en (links recycleBin) ''GET'' ''self'')"
    show ?thesis
    proof (cases "truthy ?u")
      case False
      with Some show ?thesis by (simp add: recycleResourceTask_def)
    next
      case True
      obtain c w1 where cf: "closeFileIfOpen en item w = (c, w1)"
        by (cases "closeFileIfOpen en item w")
      from closeFileIfOpen_balance [OF cf] obtain es where
        es: "log w1 = log w @ es" "netRefresh es = 0"
        by blast
      have "settles (\<lambda>a. 0) (fst (recycleResourceTask en item w)) 0"
        using cf Some True
        by (simp add: recycleResourceTask_def Let_def starts_iff netRefresh_Cons)
      with es cf Some True show ?thesis
        by (intro exI [of _ es]) (simp add: recycleResourceTask_def Let_def)
    qed
  qed
qed

lemma report_balance:
  "starts (\<lambda>a. 0)
     (\<lambda>w2. (Done (),
        if \<not> success then emit (ShowErrorMessage FileDropError (Some n)) w2 else w2)) 0"
  by (simp add: starts_iff netRefresh_Cons)

lemma handleContentItemDropTask_balance:
  "starts (\<lambda>a. 0) (handleContentItemDropTask en target item) 0"
proof -
  consider (trashed) "isInRecycleBin item"
    | (reference) "\<not> isInRecycleBin item" "isReference en item"
    | (recycle) "\<not> isInRecycleBin item" "\<not> isReference en item"
        "itemType target = TRASH_FOLDER_TYPE en"
    | (favorite) "\<not> isInRecycleBin item" "\<not> isReference en item"
        "itemType target \<noteq> TRASH_FOLDER_TYPE en" "itemType target = FAVORITES_FOLDER_TYPE en"
    | (move) "\<not> isInRecycleBin item" "\<not> isReference en item"
        "itemType target \<noteq> TRASH_FOLDER_TYPE en" "itemType target \<noteq> FAVORITES_FOLDER_TYPE en"
    by blast
  then show ?thesis
  proof cases
    case trashed
    then show ?thesis
      by (simp add: starts_iff handleContentItemDropTask_def netRefresh_Cons)
  next
    case reference
    then show ?thesis
      by (simp add: starts_iff handleContentItemDropTask_def netRefresh_Cons)
  next
    case recycle
    have "starts (\<lambda>a. 0)
        (\<lambda>w. case recycleResourceTask en item w of
           (t, w1) \<Rightarrow>
             (awaitThen t
                (\<lambda>success w2.
                   (Done (),
                    if \<not> success then emit (ShowErrorMessage FileDropError (Some (name item))) w2
                    else w2)),
              w1)) 0"
      by (rule starts_awaitThen [OF recycleResourceTask_balance report_balance])
    moreover have "handleContentItemDropTask en target item w =
        (case recycleResourceTask en item w of
           (t, w1) \<Rightarrow>
             (awaitThen t
                (\<lambda>success w2.
                   (Done (),
                    if \<not> success then emit (ShowErrorMessage FileDropError (Some (name item))) w2
                    else w2)),
              w1))" for w
      using recycle by (simp add: handleContentItemDropTask_def)
    ultimately show ?thesis
      by (rule starts_cong [rotated])
  next
    case favorite
    have "starts (\<lambda>a. 0)
        (\<lambda>w. case addToMyFavoritesTask en item w of
           (t, w1) \<Rightarrow>
             (awaitThen t
                (\<lambda>success w2.
                   (Done (),
                    if \<not> success then emit (ShowErrorMessage FileDropError (Some (name item))) w2
                    else w2)),
              w1)) 0"
      by (rule starts_awaitThen [OF addToMyFavoritesTask_balance report_balance])
    moreover have "handleContentItemDropTask en target item w =
        (case addToMyFavoritesTask en item w of
           (t, w1) \<Rightarrow>
             (awaitThen t
                (\<lambda>success w2.
                   (Done (),
                    if \<not> success then emit (ShowErrorMessage FileDropError (Some (name item))) w2
                    else w2)),
              w1))" for w
      using favorite by (simp add: handleContentItemDropTask_def)
    ultimately show ?thesis
      by (rule starts_cong [rotated])
  next
    case move
    then show ?thesis
      by (simp add: starts_iff handleContentItemDropTask_def Let_def netRefresh_Cons)
  qed
qed

lemma contentItemTask_balance: "starts (\<lambda>a. 0) (contentItemTask en target item) 0"
proof -
  have "starts (\<lambda>a. 0)
      (\<lambda>w. case handleContentItemDropTask en target item w of
         (t, w1) \<Rightarrow> (awaitThen t (\<lambda>u w2. (Done (), w2)), w1)) 0"
    by (rule starts_awaitThen [OF handleContentItemDropTask_balance]) (simp add: starts_iff)
  then show ?thesis
    by (rule starts_cong [rotated]) (simp add: contentItemTask_def)
qed

lemma folderDropEntries_startAll:
  "folderDropEntries en folder d entries w = startAll (folderDropEntry en folder d) entries w"
  by (induction entries arbitrary: w) simp_all

lemma handleFolderDropTask_balance_entries:
  assumes "\<And>e folder d. e \<in> set entries \<Longrightarrow> starts (\<lambda>a. 0) (folderDropEntry en folder d e) 0"
  shows "starts (\<lambda>a. 0) (handleFolderDropTask en target nm entries d) 0"
proof (rule startsI)
  fix w
  have inner: "starts (\<lambda>a. 0)
      (\<lambda>w3. case folderDropEntries en f d entries w3 of
         (tasks, w4) \<Rightarrow>
           (awaitThen (promiseAll (schedule en w4 (FolderEntries f)) tasks)
              (\<lambda>writes w5. (Done (lastWritten True (map snd writes)), w5)),
            w4)) 0" for f
  proof (rule startsI)
    fix w3
    obtain tasks w4 where sa: "startAll (folderDropEntry en f d) entries w3 = (tasks, w4)"
      by (cases "startAll (folderDropEntry en f d) entries w3")
    from startAll_balance [of entries "\<lambda>a. 0" "folderDropEntry en f d", OF assms sa]
    obtain es bs where es: "log w4 = log w3 @ es"
      and l: "list_all2 (\<lambda>b t. settles (\<lambda>a. 0) t b) bs tasks"
      and b: "sum_list bs = netRefresh es"
      by blast
    have "settles (balanceOf (\<lambda>a. 0)) (promiseAll (schedule en w4 (FolderEntries f)) tasks)
        (sum_list bs)"
      by (rule settles_promiseAll [OF l])
    then have "settles (\<lambda>a. 0)
        (awaitThen (promiseAll (schedule en w4 (FolderEntries f)) tasks)
           (\<lambda>writes w5. (Done (lastWritten True (map snd writes)), w5)))
        (sum_list bs)"
      by (rule settles_awaitThen) (simp add: starts_iff)
    with es b sa show "\<exists>es. log (snd (case folderDropEntries en f d entries w3 of
         (tasks, w4) \<Rightarrow>
           (awaitThen (promiseAll (schedule en w4 (FolderEntries f)) tasks)
              (\<lambda>writes w5. (Done (lastWritten True (map snd writes)), w5)),
            w4))) = log w3 @ es \<and>
        settles (\<lambda>a. 0) (fst (case folderDropEntries en f d entries w3 of
         (tasks, w4) \<Rightarrow>
           (awaitThen (promiseAll (schedule en w4 (FolderEntries f)) tasks)
              (\<lambda>writes w5. (Done (lastWritten True (map snd writes)), w5)),
            w4))) (0 + netRefresh es)"
      by (intro exI [of _ es]) (simp add: folderDropEntries_startAll)
  qed
  show "\<exists>es. log (snd (handleFolderDropTask en target nm entries d w)) = log w @ es \<and>
      settles (\<lambda>a. 0) (fst (handleFolderDropTask en target nm entries d w)) (0 + netRefresh es)"
  proof (cases "model_createFolder en w target nm")
    case None
    then show ?thesis
      by (simp add: Let_def starts_iff netRefresh_Cons del: folderDropEntries.simps)
  next
    case (Some f)
    have "starts (\<lambda>a. 0)
        (\<lambda>w2. (Step (\<lambda>w3. case folderDropEntries en f d entries w3 of
           (tasks, w4) \<Rightarrow>
             (awaitThen (promiseAll (schedule en w4 (FolderEntries f)) tasks)
                (\<lambda>writes w5. (Done (lastWritten True (map snd writes)), w5)),
              w4)), w2)) 0"
      using inner [of f] by (subst starts_iff) simp
    with Some show ?thesis
      by (simp add: Let_def netRefresh_Cons del: folderDropEntries.simps)
  qed
qed

lemma folderDropEntry_balance:
  "starts (\<lambda>a. 0) (folderDropEntry en folder d e) 0"
proof (induction e arbitrary: folder d)
  case (FsFile n c)
  have h: "starts (\<lambda>a. 0)
      (\<lambda>w4. case fileCreated of
         None \<Rightarrow>
           (Done (Some False),
            if d then emit (ShowErrorMessage FileDropError (Some n)) w4 else w4)
       | Some u \<Rightarrow> (Done None, w4)) 0" for fileCreated :: "Uri option"
    by (simp add: starts_iff netRefresh_Cons split: option.splits)
  have "starts (\<lambda>a. 0)
      (\<lambda>w2. case createFileTask en folder n (Some c) w2 of
         (t, w3) \<Rightarrow>
           (awaitThen t
              (\<lambda>fileCreated w4.
                 case fileCreated of
                   None \<Rightarrow>
                     (Done (Some False),
                      if d then emit (ShowErrorMessage FileDropError (Some n)) w4 else w4)
                 | Some u \<Rightarrow> (Done None, w4)),
            w3)) 0"
    by (rule starts_awaitThen [OF createFileTask_balance h])
  then show ?case
    by (subst starts_iff, simp, subst starts_iff, simp)
next
  case (FsDir n es)
  have "starts (\<lambda>a. 0) (handleFolderDropTask en folder n es True) 0"
    by (rule handleFolderDropTask_balance_entries) (rule FsDir.IH)
  then have "starts (\<lambda>a. 0)
      (\<lambda>w1. case handleFolderDropTask en folder n es True w1 of
         (t, w2) \<Rightarrow> (awaitThen t (\<lambda>r w3. (Done (Some r), w3)), w2)) 0"
    by (rule starts_awaitThen) (simp add: starts_iff)
  then show ?case
    by (subst starts_iff) (simp del: handleFolderDropTask.simps)
qed

lemma handleFolderDropTask_balance:
  "starts (\<lambda>a. 0) (handleFolderDropTask en target nm entries d) 0"
  by (rule handleFolderDropTask_balance_entries) (rule folderDropEntry_balance)

text \<open>
  The task of a dropped URI ends one refresh ahead when the URI is a directory whose import
  returned true, and level otherwise.
\<close>

lemma dataTransferItemTask_balance:
  "starts (\<lambda>r. if r = Some True then 1 else 0) (dataTransferItemTask en target e) 0"
proof (cases e)
  case (FsFile n c)
  have h: "starts (\<lambda>r. if r = Some True then 1 else 0)
      (\<lambda>w4. (Done None,
         if fileCreated = None then emit (ShowErrorMessage FileDropError (Some n)) w4 else w4))
      0" for fileCreated :: "Uri option"
    by (simp add: starts_iff netRefresh_Cons)
  have "starts (\<lambda>r. if r = Some True then 1 else 0)
      (\<lambda>w2. case createFileTask en target n (Some c) w2 of
         (t, w3) \<Rightarrow>
           (awaitThen t
              (\<lambda>fileCreated w4.
                 (Done None,
                  if fileCreated = None
                  then emit (ShowErrorMessage FileDropError (Some n)) w4
                  else w4)),
            w3)) 0"
    by (rule starts_awaitThen [OF createFileTask_balance h])
  then show ?thesis unfolding FsFile
    by (subst starts_iff, simp, subst starts_iff, simp)
next
  case (FsDir n es)
  have h: "starts (\<lambda>r. if r = Some True then 1 else 0)
      (\<lambda>w3. (Done (Some success), if success then refresh w3 else w3)) 0" for success
    by (simp add: starts_iff netRefresh_Cons)
  have "starts (\<lambda>r. if r = Some True then 1 else 0)
      (\<lambda>w1. case handleFolderDropTask en target n es True w1 of
         (t, w2) \<Rightarrow>
           (awaitThen t
              (\<lambda>success w3. (Done (Some success), if success then refresh w3 else w3)),
            w2)) 0"
    by (rule starts_awaitThen [OF handleFolderDropTask_balance h])
  then show ?thesis unfolding FsDir
    by (subst starts_iff) (simp del: handleFolderDropTask.simps)
qed

subsection \<open>A task that runs alone\<close>

declare runTask.simps(2) [simp del] awaitThen.simps(2) [simp del]

lemma runTask_awaitThen:
  "runTask (awaitThen t f) w =
     (case runTask t w of (a, w1) \<Rightarrow> (case f a w1 of (t2, w2) \<Rightarrow> runTask t2 w2))"
proof (induction t arbitrary: w)
  case (Done a)
  then show ?case by simp
next
  case (Step k)
  obtain t w' where kw: "k w = (t, w')" by (cases "k w")
  have "k w \<in> range k" by simp
  moreover have "t \<in> Basic_BNFs.fsts (k w)" using kw by simp
  ultimately have "runTask (awaitThen t f) w' =
      (case runTask t w' of (a, w1) \<Rightarrow> (case f a w1 of (t2, w2) \<Rightarrow> runTask t2 w2))"
    by (rule Step.IH)
  with kw show ?case by simp
qed

lemma promiseAllFrom_none_pending [simp]: "promiseAllFrom choices finished [] = Done finished"
  by (cases choices) simp_all

lemma runTask_promiseAllFrom_single:
  "runTask (promiseAllFrom choices [] [(i, Step k)]) w =
     (case runTask (Step k) w of (a, w') \<Rightarrow> ([(i, a)], w'))"
proof (induction choices arbitrary: k w)
  case Nil
  then show ?case by (simp add: runTask_awaitThen split: prod.splits)
next
  case (Cons c choices)
  obtain t w1 where kw: "k w = (t, w1)" by (cases "k w")
  show ?case
  proof (cases t)
    case (Done a)
    with kw show ?thesis by simp
  next
    case (Step k1)
    with kw Cons.IH [of k1 w1] show ?thesis by simp
  qed
qed

lemma runTask_promiseAll_single:
  "runTask (promiseAll choices [t]) w = (case runTask t w of (a, w') \<Rightarrow> ([(0, a)], w'))"
proof (cases t)
  case (Done a)
  then show ?thesis by (simp add: promiseAll_def)
next
  case (Step k)
  then show ?thesis
    using runTask_promiseAllFrom_single [of choices 0 k w] by (simp add: promiseAll_def)
qed

lemma createFileTask_run:
  "createFileTask en item n b w = (t, w1) \<Longrightarrow> runTask t w1 = createFile en item n b w"
  by (auto simp add: createFileTask_def createFile_def Let_def split: option.splits)

lemma addToMyFavoritesTask_run:
  "addToMyFavoritesTask en item w = (t, w1) \<Longrightarrow> runTask t w1 = addToMyFavorites en item w"
  by (auto simp add: addToMyFavoritesTask_def addToMyFavorites_def Let_def)

lemma deleteResourceTask_run:
  "deleteResourceTask en item w = (t, w1) \<Longrightarrow> runTask t w1 = deleteResource en item w"
  by (cases "closeFileIfOpen en item w")
    (auto simp add: deleteResourceTask_def deleteResource_def Let_def)

lemma recycleResourceTask_run:
  "recycleResourceTask en item w = (t, w1) \<Longrightarrow> runTask t w1 = recycleResource en item w"
  by (cases "closeFileIfOpen en item w")
    (auto simp add: recycleResourceTask_def recycleResource_def Let_def deleteResourceTask_run
      split: option.splits if_splits)

lemma handleContentItemDropTask_run:
  "handleContentItemDropTask en target item w = (t, w1) \<Longrightarrow>
   snd (runTask t w1) = handleContentItemDrop en target item w"
proof -
  assume run: "handleContentItemDropTask en target item w = (t, w1)"
  consider (trashed) "isInRecycleBin item"
    | (reference) "\<not> isInRecycleBin item" "isReference en item"
    | (recycle) "\<not> isInRecycleBin item" "\<not> isReference en item"
        "itemType target = TRASH_FOLDER_TYPE en"
    | (favorite) "\<not> isInRecycleBin item" "\<not> isReference en item"
        "itemType target \<noteq> TRASH_FOLDER_TYPE en" "itemType target = FAVORITES_FOLDER_TYPE en"
    | (move) "\<not> isInRecycleBin item" "\<not> isReference en item"
        "itemType target \<noteq> TRASH_FOLDER_TYPE en" "itemType target \<noteq> FAVORITES_FOLDER_TYPE en"
    by blast
  then show ?thesis
  proof cases
    case trashed
    with run show ?thesis
      by (auto simp add: handleContentItemDropTask_def handleContentItemDrop_def)
  next
    case reference
    with run show ?thesis
      by (auto simp add: handleContentItemDropTask_def handleContentItemDrop_def)
  next
    case recycle
    obtain t0 w0 where r: "recycleResourceTask en item w = (t0, w0)"
      by (cases "recycleResourceTask en item w")
    obtain s w' where d: "recycleResource en item w = (s, w')"
      by (cases "recycleResource en item w")
    from recycleResourceTask_run [OF r] d have "runTask t0 w0 = (s, w')" by simp
    with run recycle r d show ?thesis
      by (auto simp add: handleContentItemDropTask_def handleContentItemDrop_def
          runTask_awaitThen)
  next
    case favorite
    obtain t0 w0 where r: "addToMyFavoritesTask en item w = (t0, w0)"
      by (cases "addToMyFavoritesTask en item w")
    obtain s w' where d: "addToMyFavorites en item w = (s, w')"
      by (cases "addToMyFavorites en item w")
    from addToMyFavoritesTask_run [OF r] d have "runTask t0 w0 = (s, w')" by simp
    with run favorite r d show ?thesis
      by (auto simp add: handleContentItemDropTask_def handleContentItemDrop_def
          runTask_awaitThen)
  next
    case move
    with run show ?thesis
      by (auto simp add: handleContentItemDropTask_def handleContentItemDrop_def Let_def)
  qed
qed

lemma contentItemTask_run:
  "contentItemTask en target item w = (t, w1) \<Longrightarrow>
   snd (runTask t w1) = handleContentItemDrop en target item w"
proof -
  assume run: "contentItemTask en target item w = (t, w1)"
  obtain t0 w0 where r: "handleContentItemDropTask en target item w = (t0, w0)"
    by (cases "handleContentItemDropTask en target item w")
  from handleContentItemDropTask_run [OF r] run r show ?thesis
    by (auto simp add: contentItemTask_def runTask_awaitThen split: prod.splits)
qed

subsection \<open>The drop\<close>

lemma balanceOf_imported:
  "balanceOf (\<lambda>r. if r = Some True then 1 else 0) results = int (importedDirectories results)"
  by (induction results) (auto simp add: importedDirectories_def)

lemma dropped_items_balance:
  assumes "startAll (contentItemTask en target) items w = (tasks, w0)"
  shows "\<exists>es. log (snd (runTask (promiseAll choices tasks) w0)) = log w @ es \<and> netRefresh es = 0"
proof -
  obtain results w2 where run: "runTask (promiseAll choices tasks) w0 = (results, w2)"
    by (cases "runTask (promiseAll choices tasks) w0")
  from startAll_promiseAll_run [of "\<lambda>a. 0" "contentItemTask en target", OF contentItemTask_balance assms run]
  show ?thesis using run by simp
qed

lemma dataTransferItemResults_balance:
  assumes "dataTransferItemResults en target uris w = (results, w')"
  shows "\<exists>es. log w' = log w @ es \<and> netRefresh es = int (importedDirectories results)"
proof -
  obtain tasks w1 where sa: "startAll (dataTransferItemTask en target) uris w = (tasks, w1)"
    by (cases "startAll (dataTransferItemTask en target) uris w")
  with assms have run: "runTask (promiseAll (schedule en w1 DroppedUris) tasks) w1 = (results, w')"
    by (simp add: dataTransferItemResults_def)
  from startAll_promiseAll_run [of "\<lambda>r. if r = Some True then 1 else 0"
      "dataTransferItemTask en target", OF dataTransferItemTask_balance sa run]
  show ?thesis by (simp add: balanceOf_imported)
qed

lemma handleDrop_items_only:
  "\<exists>es. log (handleDrop en target (sources\<lparr>uriList := None\<rparr>) w) = log w @ es \<and> netRefresh es = 0"
proof (cases "contentItems sources")
  case None
  then show ?thesis by (simp add: handleDrop_def)
next
  case (Some items)
  obtain tasks w0 where sa: "startAll (contentItemTask en target) items w = (tasks, w0)"
    by (cases "startAll (contentItemTask en target) items w")
  from dropped_items_balance [OF sa, of "schedule en w0 DroppedItems"] Some sa
  show ?thesis by (simp add: handleDrop_def)
qed

lemma handleDrop_split:
  "handleDrop en target sources w =
     (case uriList sources of
        None \<Rightarrow> handleDrop en target (sources\<lparr>uriList := None\<rparr>) w
      | Some uris \<Rightarrow>
          snd (dataTransferItemResults en target uris
                 (handleDrop en target (sources\<lparr>uriList := None\<rparr>) w)))"
  by (simp add: handleDrop_def handleDataTransferItemDrop_def split: option.splits)

lemma net_to_counts:
  "netRefresh es = int k \<Longrightarrow> refreshCount es = mutationCount es + k"
  by (simp add: netRefresh_def)

lemma handleDrop_count:
  "let w1 = handleDrop en target (sources\<lparr>uriList := None\<rparr>) w;
       w2 = handleDrop en target sources w;
       new = newEvents w w2;
       imported = (case uriList sources of
                     None \<Rightarrow> 0
                   | Some uris \<Rightarrow>
                       importedDirectories (fst (dataTransferItemResults en target uris w1)))
   in log w2 = log w @ new \<and> refreshCount new = mutationCount new + imported"
proof -
  let ?w1 = "handleDrop en target (sources\<lparr>uriList := None\<rparr>) w"
  from handleDrop_items_only [of en target sources w] obtain e1 where
    e1: "log ?w1 = log w @ e1" "netRefresh e1 = 0"
    by blast
  show ?thesis
  proof (cases "uriList sources")
    case None
    then have "handleDrop en target sources w = ?w1"
      by (subst handleDrop_split) simp
    with e1 None net_to_counts [of e1 0] show ?thesis
      by (simp add: Let_def)
  next
    case (Some uris)
    obtain results w2 where d: "dataTransferItemResults en target uris ?w1 = (results, w2)"
      by (cases "dataTransferItemResults en target uris ?w1")
    from dataTransferItemResults_balance [OF d] obtain e2 where
      e2: "log w2 = log ?w1 @ e2" "netRefresh e2 = int (importedDirectories results)"
      by blast
    have w2: "handleDrop en target sources w = w2"
      using Some d by (subst handleDrop_split) simp
    have l: "log w2 = log w @ (e1 @ e2)" using e1 e2 by simp
    have "netRefresh (e1 @ e2) = int (importedDirectories results)"
      using e1 e2 by simp
    from net_to_counts [OF this] l w2 Some d show ?thesis
      by (simp add: Let_def del: refreshCount_simps mutationCount_simps)
  qed
qed

subsection \<open>Every task comes to its end\<close>

lemma length_drain:
  "length (fst (runTask (drain finished pending) w)) = length finished + length pending"
proof (induction pending arbitrary: finished w)
  case Nil
  then show ?case by simp
next
  case (Cons p pending)
  obtain i t where p: "p = (i, t)" by (cases p)
  obtain a w1 where r: "runTask t w = (a, w1)" by (cases "runTask t w")
  from Cons.IH [of "finished @ [(i, a)]" w1] p r show ?case
    by (simp add: runTask_awaitThen)
qed

lemma length_promiseAllFrom:
  "length (fst (runTask (promiseAllFrom choices finished pending) w)) =
     length finished + length pending"
proof (induction choices arbitrary: finished pending w)
  case Nil
  then show ?case by (simp add: length_drain)
next
  case (Cons c choices)
  show ?case
  proof (cases pending)
    case Nil
    then show ?thesis by simp
  next
    case (Cons p ps)
    let ?j = "c mod length pending"
    have j: "?j < length pending" using Cons by simp
    then have len: "length (take ?j pending) + length (drop (Suc ?j) pending) + 1 = length pending"
      by simp
    obtain i t where pj: "pending ! ?j = (i, t)" by (cases "pending ! ?j")
    show ?thesis
    proof (cases t)
      case (Done a)
      from Cons.IH [of "finished @ [(i, a)]" "take ?j pending @ drop (Suc ?j) pending" w]
        Done pj Cons len
      show ?thesis by (simp add: Let_def)
    next
      case (Step k)
      obtain t1 w1 where kw: "k w = (t1, w1)" by (cases "k w")
      show ?thesis
      proof (cases t1)
        case (Done a)
        from Cons.IH [of "finished @ [(i, a)]" "take ?j pending @ drop (Suc ?j) pending" w1]
          Done Step kw pj Cons len
        show ?thesis by (simp add: Let_def)
      next
        case inner: (Step k1)
        from Cons.IH [of finished "take ?j pending @ (i, Step k1) # drop (Suc ?j) pending" w1]
          inner Step kw pj Cons len
        show ?thesis by (simp add: Let_def)
      qed
    qed
  qed
qed

lemma length_settle:
  "settle its = (finished, pending) \<Longrightarrow> length finished + length pending = length its"
  by (induction its arbitrary: finished pending rule: settle.induct)
    (auto split: prod.splits)

lemma length_promiseAll:
  "length (fst (runTask (promiseAll choices tasks) w)) = length tasks"
proof -
  obtain finished pending where st: "settle (zip [0..<length tasks] tasks) = (finished, pending)"
    by (cases "settle (zip [0..<length tasks] tasks)")
  from length_settle [OF st] st show ?thesis
    by (simp add: promiseAll_def length_promiseAllFrom)
qed

lemma length_startAll: "startAll f xs w = (ts, w') \<Longrightarrow> length ts = length xs"
  by (induction xs arbitrary: w ts w') (auto split: prod.splits)

text \<open>
  \<^verbatim>\<open>emptyRecycleBin\<close> returns true whatever the model answers and in whatever order
  the deletions end: the array that \<^verbatim>\<open>Promise.all\<close> resolves to has one entry for each
  child.
\<close>

lemma emptyRecycleBin_always_true: "fst (emptyRecycleBin en w) = True"
proof -
  let ?children = "model_getChildren en w (model_getDelegateFolder en w ''@myRecycleBin'')"
  let ?w0 = "emit (ModelGetChildren (model_getDelegateFolder en w ''@myRecycleBin'')) w"
  obtain tasks w1 where sa: "startAll (deleteResourceTask en) ?children ?w0 = (tasks, w1)"
    by (cases "startAll (deleteResourceTask en) ?children ?w0")
  obtain result w2 where
    run: "runTask (promiseAll (schedule en w1 EmptyTrash) tasks) w1 = (result, w2)"
    by (cases "runTask (promiseAll (schedule en w1 EmptyTrash) tasks) w1")
  from length_promiseAll [of "schedule en w1 EmptyTrash" tasks w1] run length_startAll [OF sa]
  have "length result = length ?children" by simp
  with sa run show ?thesis by (simp add: emptyRecycleBin_def Let_def)
qed

subsection \<open>A drop of one item\<close>

lemma handleDrop_one_item:
  "handleDrop en target \<lparr>contentItems = Some [item], uriList = None\<rparr> w =
     handleContentItemDrop en target item w"
proof -
  obtain t w1 where r: "contentItemTask en target item w = (t, w1)"
    by (cases "contentItemTask en target item w")
  from contentItemTask_run [OF r] r show ?thesis
    by (auto simp add: handleDrop_def runTask_promiseAll_single split: prod.splits)
qed

lemma handleDrop_one_file:
  "handleDrop en target \<lparr>contentItems = None, uriList = Some [FsFile n c]\<rparr> w =
     (case createFile en target n (Some c) w of
        (fileCreated, w') \<Rightarrow>
          if fileCreated = None then emit (ShowErrorMessage FileDropError (Some n)) w' else w')"
proof -
  obtain t w1 where r: "createFileTask en target n (Some c) w = (t, w1)"
    by (cases "createFileTask en target n (Some c) w")
  from createFileTask_run [OF r] r show ?thesis
    by (simp add: handleDrop_def handleDataTransferItemDrop_def dataTransferItemResults_def
        runTask_promiseAll_single runTask_awaitThen split: prod.splits)
qed

lemma handleDrop_one_directory:
  "handleDrop en target \<lparr>contentItems = None, uriList = Some [FsDir n es]\<rparr> w =
     (case handleFolderDrop en target n es True w of
        (success, w') \<Rightarrow> if success then refresh w' else w')"
proof -
  obtain t w1 where r: "handleFolderDropTask en target n es True w = (t, w1)"
    by (cases "handleFolderDropTask en target n es True w")
  then show ?thesis
    by (simp add: handleDrop_def handleDataTransferItemDrop_def dataTransferItemResults_def
        handleFolderDrop_def runTask_promiseAll_single runTask_awaitThen
        del: handleFolderDropTask.simps split: prod.splits)
qed

lemma handleDrop_nothing:
  "handleDrop en target \<lparr>contentItems = None, uriList = None\<rparr> w = w"
  by (simp add: handleDrop_def)

text \<open>
  C7. \<^verbatim>\<open>handleDrop\<close> is to ask for one refresh of the tree after all items of the drop are
  done, and not for one refresh per item. The code has no refresh in \<^verbatim>\<open>handleDrop\<close>: the
  refreshes are those of the items. Whatever the store answers and in whatever order the tasks
  of the items are resumed, the drop adds to the log, and the refreshes it adds are as many as
  the mutations of the store that succeeded for an item (a move, a move to the recycle bin, a
  deletion, a favorite added, a file created) and the dropped directories whose import
  returned true, together. A drop of one item of the tree is
  \<^verbatim>\<open>handleContentItemDrop\<close> of that item; a drop of one local file is \<^verbatim>\<open>createFile\<close>,
  with a message when no file is created; a drop of one local directory is
  \<^verbatim>\<open>handleFolderDrop\<close>, with a refresh when it returns true; a drop with nothing in it
  does nothing.
\<close>

theorem handleDrop_refreshes_per_item:
  "(let w1 = handleDrop en target (sources\<lparr>uriList := None\<rparr>) w;
        w2 = handleDrop en target sources w;
        new = newEvents w w2;
        imported = (case uriList sources of
                      None \<Rightarrow> 0
                    | Some uris \<Rightarrow>
                        importedDirectories (fst (dataTransferItemResults en target uris w1)))
    in log w2 = log w @ new \<and> refreshCount new = mutationCount new + imported) \<and>
   handleDrop en target \<lparr>contentItems = Some [item], uriList = None\<rparr> w =
     handleContentItemDrop en target item w \<and>
   handleDrop en target \<lparr>contentItems = None, uriList = Some [FsFile n c]\<rparr> w =
     (case createFile en target n (Some c) w of
        (fileCreated, w') \<Rightarrow>
          if fileCreated = None then emit (ShowErrorMessage FileDropError (Some n)) w' else w') \<and>
   handleDrop en target \<lparr>contentItems = None, uriList = Some [FsDir n es]\<rparr> w =
     (case handleFolderDrop en target n es True w of
        (success, w') \<Rightarrow> if success then refresh w' else w') \<and>
   handleDrop en target \<lparr>contentItems = None, uriList = None\<rparr> w = w"
  by (intro conjI handleDrop_count handleDrop_one_item handleDrop_one_file
      handleDrop_one_directory handleDrop_nothing)

text \<open>
  A drop of a file of the tree together with a local directory that holds one file: three
  refreshes, for the move, for the file created in the directory, and for the directory.
\<close>

theorem handleDrop_refreshes_per_item_witness:
  "handleDrop exampleEnv homeFolder
     \<lparr>contentItems = Some [fileA], uriList = Some [FsDir ''dir'' [FsFile ''b.sas'' ''2'']]\<rparr>
     emptyWorld
   = \<lparr>tabGroups = [],
      log = [ModelMoveTo fileA ''/folders/home'' True, Refresh,
             ModelCreateFolder homeFolder ''dir''
               (Some (mkItem ''dir'' ''/folders/home/dir'' ''/folders/home'' ''folder'')),
             ModelCreateFile (mkItem ''dir'' ''/folders/home/dir'' ''/folders/home'' ''folder'')
               ''b.sas'' (Some ''2'')
               (Some (mkItem ''b.sas'' ''/folders/home/dir/b.sas'' ''/folders/home/dir'' ''file'')),
             Refresh, Refresh]\<rparr> \<and>
   refreshCount (log (handleDrop exampleEnv homeFolder
     \<lparr>contentItems = Some [fileA], uriList = Some [FsDir ''dir'' [FsFile ''b.sas'' ''2'']]\<rparr>
     emptyWorld)) = 2 + 1"
proof -
  let ?sources =
    "\<lparr>contentItems = Some [fileA], uriList = Some [FsDir ''dir'' [FsFile ''b.sas'' ''2'']]\<rparr>"
  let ?w2 = "handleDrop exampleEnv homeFolder ?sources emptyWorld"
  let ?log = "[ModelMoveTo fileA ''/folders/home'' True, Refresh,
             ModelCreateFolder homeFolder ''dir''
               (Some (mkItem ''dir'' ''/folders/home/dir'' ''/folders/home'' ''folder'')),
             ModelCreateFile (mkItem ''dir'' ''/folders/home/dir'' ''/folders/home'' ''folder'')
               ''b.sas'' (Some ''2'')
               (Some (mkItem ''b.sas'' ''/folders/home/dir/b.sas'' ''/folders/home/dir'' ''file'')),
             Refresh, Refresh]"
  have items: "handleDrop exampleEnv homeFolder (?sources\<lparr>uriList := None\<rparr>) emptyWorld =
      \<lparr>tabGroups = [], log = [ModelMoveTo fileA ''/folders/home'' True, Refresh]\<rparr>"
    by (simp add: handleDrop_def contentItemTask_def handleContentItemDropTask_def
        promiseAll_def exampleEnv_def emptyWorld_def emit_def refresh_def homeFolder_def
        fileA_def mkItem_def runTask.simps(2) awaitThen.simps(2))
  have imported: "importedDirectories (fst (dataTransferItemResults exampleEnv homeFolder
      [FsDir ''dir'' [FsFile ''b.sas'' ''2'']]
      \<lparr>tabGroups = [], log = [ModelMoveTo fileA ''/folders/home'' True, Refresh]\<rparr>)) = 1"
    by (simp add: importedDirectories_def dataTransferItemResults_def createFileTask_def
        promiseAll_def exampleEnv_def emit_def refresh_def homeFolder_def mkItem_def
        runTask.simps(2) awaitThen.simps(2))
  have run: "?w2 = \<lparr>tabGroups = [], log = ?log\<rparr>"
    by (simp add: handleDrop_def handleDataTransferItemDrop_def dataTransferItemResults_def
        contentItemTask_def handleContentItemDropTask_def createFileTask_def
        promiseAll_def exampleEnv_def emptyWorld_def emit_def refresh_def homeFolder_def
        fileA_def mkItem_def runTask.simps(2) awaitThen.simps(2))
  have muts: "mutationCount ?log = 2"
    by (simp add: fileA_def mkItem_def)
  note t = handleDrop_refreshes_per_item [of exampleEnv homeFolder ?sources emptyWorld,
      THEN conjunct1]
  have "refreshCount (newEvents emptyWorld ?w2) = mutationCount (newEvents emptyWorld ?w2) + 1"
    using t unfolding Let_def items by (simp only: DataTransfer.simps option.case imported)
  moreover have "newEvents emptyWorld ?w2 = log ?w2"
    by (simp add: newEvents_def emptyWorld_def)
  ultimately have "refreshCount (log ?w2) = mutationCount (log ?w2) + 1" by simp
  then have "refreshCount (log ?w2) = 2 + 1" unfolding run using muts by simp
  with run show ?thesis by simp
qed

text \<open>
  Two files of the tree dropped on a folder: both moves are requested when the drop starts,
  and each of the two tasks asks for a refresh as it ends. There are two refreshes, not one.
\<close>

theorem handleDrop_one_refresh_counterexample:
  "handleDrop exampleEnv homeFolder \<lparr>contentItems = Some [fileA, fileB], uriList = None\<rparr>
     emptyWorld
   = \<lparr>tabGroups = [],
      log = [ModelMoveTo fileA ''/folders/home'' True, ModelMoveTo fileB ''/folders/home'' True,
             Refresh, Refresh]\<rparr> \<and>
   refreshCount (log (handleDrop exampleEnv homeFolder
      \<lparr>contentItems = Some [fileA, fileB], uriList = None\<rparr> emptyWorld)) = 2"
proof -
  have run: "handleDrop exampleEnv homeFolder
      \<lparr>contentItems = Some [fileA, fileB], uriList = None\<rparr> emptyWorld
    = \<lparr>tabGroups = [],
       log = [ModelMoveTo fileA ''/folders/home'' True, ModelMoveTo fileB ''/folders/home'' True,
              Refresh, Refresh]\<rparr>"
    by (simp add: handleDrop_def contentItemTask_def handleContentItemDropTask_def
        promiseAll_def exampleEnv_def emptyWorld_def emit_def refresh_def homeFolder_def
        fileA_def fileB_def mkItem_def runTask.simps(2) awaitThen.simps(2))
  show ?thesis unfolding run by simp
qed

section \<open>Failed uploads\<close>

text \<open>
  What holds of every import of a directory: the request to create the folder is the first
  event; when it is refused, no file is created and the import returns false, having shown
  the name of the folder if it is to show messages; and an upload of such a directory alone
  ends with one notification.
\<close>

lemma handleFolderDrop_folder_first:
  "\<exists>es. log (snd (handleFolderDrop en target nm entries d w)) =
     log w @ ModelCreateFolder target nm (model_createFolder en w target nm) # es"
proof -
  obtain t w1 where r: "handleFolderDropTask en target nm entries d w = (t, w1)"
    by (cases "handleFolderDropTask en target nm entries d w")
  then have w1: "log w1 = log w @ [ModelCreateFolder target nm (model_createFolder en w target nm)]"
    by (auto simp add: Let_def simp del: folderDropEntries.simps)
  from startsD [OF handleFolderDropTask_balance r] obtain es0 where
    "settles (\<lambda>a. 0) t (0 + netRefresh es0)"
    by blast
  from settles_run [OF this, of w1] obtain es where
    "log (snd (runTask t w1)) = log w1 @ es"
    by blast
  with w1 r show ?thesis
    by (simp add: handleFolderDrop_def del: handleFolderDropTask.simps)
qed

lemma handleFolderDrop_refused:
  "model_createFolder en w target nm = None \<Longrightarrow>
   handleFolderDrop en target nm entries d w =
     (False,
      if d then emit (ShowErrorMessage FileDropError (Some nm))
                  (emit (ModelCreateFolder target nm None) w)
      else emit (ModelCreateFolder target nm None) w)"
  by (simp add: handleFolderDrop_def Let_def runTask.simps(2) del: folderDropEntries.simps)

lemma uploadUrisToTarget_refused_folder:
  "model_createFolder en w target nm = None \<Longrightarrow>
   uploadUrisToTarget en [FsDir nm entries] target w =
     emit (ShowErrorMessage FileUploadError None) (emit (ModelCreateFolder target nm None) w)"
  by (simp add: uploadUrisToTarget_def handleFolderDrop_refused handleCreationResponse_def)

text \<open>
  C6. \<^verbatim>\<open>uploadUrisToTarget\<close> is to collect the names of the items that failed and to
  raise one notification when any item failed. A local directory \<^verbatim>\<open>dir\<close> holds the file
  \<^verbatim>\<open>a.sas\<close>, which the store refuses, and the directory \<^verbatim>\<open>sub\<close> with the file
  \<^verbatim>\<open>b.sas\<close>. The task of \<^verbatim>\<open>sub\<close> ends after that of \<^verbatim>\<open>a.sas\<close> and assigns its own
  result to the flag \<^verbatim>\<open>success\<close> of \<^verbatim>\<open>dir\<close>: the import of \<^verbatim>\<open>dir\<close> returns true, no
  name is collected and nothing is shown, although \<^verbatim>\<open>a.sas\<close> was not created. This is so
  when the task of the file is resumed to its end before that of the subdirectory, and when
  the two tasks are resumed in turns.
\<close>

theorem uploadUrisToTarget_misses_failed_file:
  "uploadUrisToTarget refusingEnv
     [FsDir ''dir'' [FsFile ''a.sas'' ''1'', FsDir ''sub'' [FsFile ''b.sas'' ''2'']]]
     homeFolder emptyWorld
   = \<lparr>tabGroups = [],
      log = [ModelCreateFolder homeFolder ''dir''
               (Some (mkItem ''dir'' ''/folders/home/dir'' ''/folders/home'' ''folder'')),
             ModelCreateFile (mkItem ''dir'' ''/folders/home/dir'' ''/folders/home'' ''folder'')
               ''a.sas'' (Some ''1'') None,
             ModelCreateFolder (mkItem ''dir'' ''/folders/home/dir'' ''/folders/home'' ''folder'')
               ''sub''
               (Some (mkItem ''sub'' ''/folders/home/dir/sub'' ''/folders/home/dir'' ''folder'')),
             ModelCreateFile
               (mkItem ''sub'' ''/folders/home/dir/sub'' ''/folders/home/dir'' ''folder'')
               ''b.sas'' (Some ''2'')
               (Some (mkItem ''b.sas'' ''/folders/home/dir/sub/b.sas'' ''/folders/home/dir/sub''
                  ''file'')),
             Refresh]\<rparr> \<and>
   uploadUrisToTarget (refusingEnv\<lparr>schedule := (\<lambda>w s. [0, 1, 0, 1, 0, 0])\<rparr>)
     [FsDir ''dir'' [FsFile ''a.sas'' ''1'', FsDir ''sub'' [FsFile ''b.sas'' ''2'']]]
     homeFolder emptyWorld
   = \<lparr>tabGroups = [],
      log = [ModelCreateFolder homeFolder ''dir''
               (Some (mkItem ''dir'' ''/folders/home/dir'' ''/folders/home'' ''folder'')),
             ModelCreateFolder (mkItem ''dir'' ''/folders/home/dir'' ''/folders/home'' ''folder'')
               ''sub''
               (Some (mkItem ''sub'' ''/folders/home/dir/sub'' ''/folders/home/dir'' ''folder'')),
             ModelCreateFile (mkItem ''dir'' ''/folders/home/dir'' ''/folders/home'' ''folder'')
               ''a.sas'' (Some ''1'') None,
             ModelCreateFile
               (mkItem ''sub'' ''/folders/home/dir/sub'' ''/folders/home/dir'' ''folder'')
               ''b.sas'' (Some ''2'')
               (Some (mkItem ''b.sas'' ''/folders/home/dir/sub/b.sas'' ''/folders/home/dir/sub''
                  ''file'')),
             Refresh]\<rparr>"
proof (rule conjI)
  show "uploadUrisToTarget refusingEnv
     [FsDir ''dir'' [FsFile ''a.sas'' ''1'', FsDir ''sub'' [FsFile ''b.sas'' ''2'']]]
     homeFolder emptyWorld
   = \<lparr>tabGroups = [],
      log = [ModelCreateFolder homeFolder ''dir''
               (Some (mkItem ''dir'' ''/folders/home/dir'' ''/folders/home'' ''folder'')),
             ModelCreateFile (mkItem ''dir'' ''/folders/home/dir'' ''/folders/home'' ''folder'')
               ''a.sas'' (Some ''1'') None,
             ModelCreateFolder (mkItem ''dir'' ''/folders/home/dir'' ''/folders/home'' ''folder'')
               ''sub''
               (Some (mkItem ''sub'' ''/folders/home/dir/sub'' ''/folders/home/dir'' ''folder'')),
             ModelCreateFile
               (mkItem ''sub'' ''/folders/home/dir/sub'' ''/folders/home/dir'' ''folder'')
               ''b.sas'' (Some ''2'')
               (Some (mkItem ''b.sas'' ''/folders/home/dir/sub/b.sas'' ''/folders/home/dir/sub''
                  ''file'')),
             Refresh]\<rparr>"
    by (simp add: uploadUrisToTarget_def handleFolderDrop_def createFileTask_def promiseAll_def
        refusingEnv_def exampleEnv_def emptyWorld_def emit_def refresh_def homeFolder_def
        mkItem_def runTask.simps(2) awaitThen.simps(2))
  show "uploadUrisToTarget (refusingEnv\<lparr>schedule := (\<lambda>w s. [0, 1, 0, 1, 0, 0])\<rparr>)
     [FsDir ''dir'' [FsFile ''a.sas'' ''1'', FsDir ''sub'' [FsFile ''b.sas'' ''2'']]]
     homeFolder emptyWorld
   = \<lparr>tabGroups = [],
      log = [ModelCreateFolder homeFolder ''dir''
               (Some (mkItem ''dir'' ''/folders/home/dir'' ''/folders/home'' ''folder'')),
             ModelCreateFolder (mkItem ''dir'' ''/folders/home/dir'' ''/folders/home'' ''folder'')
               ''sub''
               (Some (mkItem ''sub'' ''/folders/home/dir/sub'' ''/folders/home/dir'' ''folder'')),
             ModelCreateFile (mkItem ''dir'' ''/folders/home/dir'' ''/folders/home'' ''folder'')
               ''a.sas'' (Some ''1'') None,
             ModelCreateFile
               (mkItem ''sub'' ''/folders/home/dir/sub'' ''/folders/home/dir'' ''folder'')
               ''b.sas'' (Some ''2'')
               (Some (mkItem ''b.sas'' ''/folders/home/dir/sub/b.sas'' ''/folders/home/dir/sub''
                  ''file'')),
             Refresh]\<rparr>"
    by (simp add: uploadUrisToTarget_def handleFolderDrop_def createFileTask_def promiseAll_def
        refusingEnv_def exampleEnv_def emptyWorld_def emit_def refresh_def homeFolder_def
        mkItem_def runTask.simps(2) awaitThen.simps(2) Let_def)
qed

end
